theory Spec2Isabelle
  imports Main "HOL-Library.Word" "HOL-Library.AList"
begin

section \<open>Go values used by the package\<close>

text \<open>
  The package is a small HTTP server (\<^verbatim>\<open>serve\<close>, with its routes) and the formatters of
  \<^verbatim>\<open>formatters.go\<close>. Go's \<^verbatim>\<open>int64\<close> is a 64-bit word read as two's complement
  (\<open>sint\<close>); a Go \<^verbatim>\<open>string\<close> is a list of bytes (\<open>string\<close>).
\<close>

type_synonym int64 = "64 word"

text \<open>
  \<^verbatim>\<open>Any\<close> is \<^verbatim>\<open>map[string]interface{}\<close>: an association list with distinct keys, in which
  \<^verbatim>\<open>m[k] = v\<close> is \<open>AList.update k v m\<close> and a lookup is \<open>map_of m k\<close>. The values stored
  in one are the dynamic values below. A slice value remembers whether it is the nil
  slice (\<open>None\<close>) or holds elements (\<open>Some xs\<close>, possibly empty).
\<close>

datatype val =
    VInt int64
  | VStr string
  | VBool bool
  | VMap "(string \<times> val) list"
  | VSlice "val list option"

type_synonym Any = "(string \<times> val) list"

text \<open>
  \<^verbatim>\<open>append(s, x)\<close> on a slice that may be nil: the result is never nil.
\<close>

definition append_slice :: "'a list option \<Rightarrow> 'a \<Rightarrow> 'a list option" where
  "append_slice s x = (case s of None \<Rightarrow> Some [x] | Some xs \<Rightarrow> Some (xs @ [x]))"

text \<open>
  The JSON document \<^verbatim>\<open>encoding/json\<close> writes for a value: a nil slice is \<^verbatim>\<open>null\<close>, any
  other slice an array, a map an object (whose members JSON does not order).
\<close>

datatype json =
    JNull
  | JNumber int
  | JString string
  | JBool bool
  | JArray "json list"
  | JObject "(string \<times> json) list"

fun marshal :: "val \<Rightarrow> json" where
  "marshal (VInt i) = JNumber (sint i)"
| "marshal (VStr s) = JString s"
| "marshal (VBool b) = JBool b"
| "marshal (VMap m) = JObject (zip (map fst m) (map (\<lambda>kv. marshal (snd kv)) m))"
| "marshal (VSlice None) = JNull"
| "marshal (VSlice (Some xs)) = JArray (map marshal xs)"

section \<open>Library functions the server calls\<close>

subsection \<open>strings and strconv\<close>

text \<open>
  \<^verbatim>\<open>strings.Split(s, sep)\<close> for a separator of one byte, which is how \<^verbatim>\<open>serve\<close> calls it
  (\<^verbatim>\<open>"="\<close> and \<^verbatim>\<open>"-"\<close>): the pieces between the separators, so one piece more than there
  are separators, and never an empty list.
\<close>

fun Split :: "string \<Rightarrow> char \<Rightarrow> string list" where
  "Split [] sep = [[]]"
| "Split (c # cs) sep =
     (if c = sep then [] # Split cs sep
      else (case Split cs sep of [] \<Rightarrow> [[c]] | t # ts \<Rightarrow> (c # t) # ts))"

definition TrimPrefix :: "string \<Rightarrow> string \<Rightarrow> string" where
  "TrimPrefix s p = (if take (length p) s = p then drop (length p) s else s)"

text \<open>
  An index expression \<^verbatim>\<open>xs[i]\<close> with a constant index: \<open>None\<close> is the run-time panic
  "index out of range".
\<close>

definition index :: "'a list \<Rightarrow> nat \<Rightarrow> 'a option" where
  "index xs i = (if i < length xs then Some (xs ! i) else None)"

text \<open>
  \<^verbatim>\<open>strconv.ParseInt(s, 10, 64)\<close>, with \<open>None\<close> for a non-nil error (the callers read the
  value only when the error is nil): an optional sign, then at least one decimal digit
  and nothing else, and the value must fit an \<^verbatim>\<open>int64\<close>.
\<close>

definition digitVal :: "char \<Rightarrow> nat option" where
  "digitVal c = map_of (zip ''0123456789'' [0, 1, 2, 3, 4, 5, 6, 7, 8, 9]) c"

fun parseDigits :: "nat \<Rightarrow> string \<Rightarrow> nat option" where
  "parseDigits n [] = Some n"
| "parseDigits n (c # cs) =
     (case digitVal c of None \<Rightarrow> None | Some d \<Rightarrow> parseDigits (n * 10 + d) cs)"

definition ParseUint :: "string \<Rightarrow> nat option" where
  "ParseUint s = (if s = [] then None else parseDigits 0 s)"

definition ParseInt :: "string \<Rightarrow> int64 option" where
  "ParseInt s =
     (case s of
        [] \<Rightarrow> None
      | c # cs \<Rightarrow>
          if c = CHR ''+'' then
            (case ParseUint cs of
               None \<Rightarrow> None
             | Some un \<Rightarrow> if un \<ge> 9223372036854775808 then None else Some (of_nat un))
          else if c = CHR ''-'' then
            (case ParseUint cs of
               None \<Rightarrow> None
             | Some un \<Rightarrow> if un > 9223372036854775808 then None else Some (- of_nat un))
          else
            (case ParseUint s of
               None \<Rightarrow> None
             | Some un \<Rightarrow> if un \<ge> 9223372036854775808 then None else Some (of_nat un)))"

text \<open>The verb \<^verbatim>\<open>%d\<close> of \<^verbatim>\<open>fmt.Sprintf\<close> on an integer: its decimal digits, after a minus sign
  when it is negative.\<close>

fun digitsOf :: "nat \<Rightarrow> string" where
  "digitsOf n =
     (if n < 10 then [''0123456789'' ! n]
      else digitsOf (n div 10) @ [''0123456789'' ! (n mod 10)])"

declare digitsOf.simps [simp del]

definition FormatInt :: "int \<Rightarrow> string" where
  "FormatInt i = (if i < 0 then CHR ''-'' # digitsOf (nat (- i)) else digitsOf (nat i))"

text \<open>
  The verb \<^verbatim>\<open>%q\<close> on a string (\<^verbatim>\<open>strconv.Quote\<close>): the string between double quotes, with
  a backslash before a double quote or a backslash, and escapes for the ASCII control
  bytes. A byte above \<open>0x7F\<close> is copied as it is, which is what Go does inside the UTF-8
  encoding of a printable character; other non-ASCII input is outside this model.
  \<open>CHR 0x22\<close> is the double quote and \<open>CHR 0x5C\<close> the backslash.
\<close>

definition hexDigit :: "nat \<Rightarrow> char" where
  "hexDigit n = ''0123456789abcdef'' ! n"

definition quoteByte :: "char \<Rightarrow> string" where
  "quoteByte c =
     (let n = (of_char c :: nat) in
      if c = CHR 0x22 \<or> c = CHR 0x5C then [CHR 0x5C, c]
      else if 32 \<le> n \<and> n < 127 then [c]
      else if n = 7 then [CHR 0x5C, CHR ''a'']
      else if n = 8 then [CHR 0x5C, CHR ''b'']
      else if n = 12 then [CHR 0x5C, CHR ''f'']
      else if n = 10 then [CHR 0x5C, CHR ''n'']
      else if n = 13 then [CHR 0x5C, CHR ''r'']
      else if n = 9 then [CHR 0x5C, CHR ''t'']
      else if n = 11 then [CHR 0x5C, CHR ''v'']
      else if n < 128 then [CHR 0x5C, CHR ''x'', hexDigit (n div 16), hexDigit (n mod 16)]
      else [c])"

definition Quote :: "string \<Rightarrow> string" where
  "Quote s = CHR 0x22 # concat (map quoteByte s) @ [CHR 0x22]"

subsection \<open>net/http headers\<close>

text \<open>
  \<^verbatim>\<open>http.Header\<close> maps a canonical key to its values. \<^verbatim>\<open>Set\<close> and \<^verbatim>\<open>Get\<close> canonicalise the
  key they are given (\<^verbatim>\<open>textproto.CanonicalMIMEHeaderKey\<close>): the first letter and every
  letter after a hyphen in upper case, the others in lower case, and a key with a byte
  that no header name may hold is left as it is. \<open>CHR 0x27\<close> is the apostrophe and
  \<open>CHR 0x60\<close> the backquote.
\<close>

definition toUpper :: "char \<Rightarrow> char" where
  "toUpper c =
     (case map_of (zip ''abcdefghijklmnopqrstuvwxyz'' ''ABCDEFGHIJKLMNOPQRSTUVWXYZ'') c of
        None \<Rightarrow> c | Some u \<Rightarrow> u)"

definition toLower :: "char \<Rightarrow> char" where
  "toLower c =
     (case map_of (zip ''ABCDEFGHIJKLMNOPQRSTUVWXYZ'' ''abcdefghijklmnopqrstuvwxyz'') c of
        None \<Rightarrow> c | Some l \<Rightarrow> l)"

definition validHeaderFieldByte :: "char \<Rightarrow> bool" where
  "validHeaderFieldByte c =
     (c \<in> set (''abcdefghijklmnopqrstuvwxyzABCDEFGHIJKLMNOPQRSTUVWXYZ0123456789'' @
               ''!#$%&*+-.^_|~'' @ [CHR 0x27, CHR 0x60]))"

fun canonical :: "bool \<Rightarrow> string \<Rightarrow> string" where
  "canonical upper [] = []"
| "canonical upper (c # cs) =
     (if upper then toUpper c else toLower c) # canonical (c = CHR ''-'') cs"

definition CanonicalMIMEHeaderKey :: "string \<Rightarrow> string" where
  "CanonicalMIMEHeaderKey s = (if list_all validHeaderFieldByte s then canonical True s else s)"

type_synonym Header = "(string \<times> string list) list"

definition Header_Set :: "string \<Rightarrow> string \<Rightarrow> Header \<Rightarrow> Header" where
  "Header_Set key v h = AList.update (CanonicalMIMEHeaderKey key) [v] h"

definition Header_Get :: "Header \<Rightarrow> string \<Rightarrow> string" where
  "Header_Get h key =
     (case map_of h (CanonicalMIMEHeaderKey key) of
        None \<Rightarrow> [] | Some [] \<Rightarrow> [] | Some (v # vs) \<Rightarrow> v)"

subsection \<open>Byte slices\<close>

text \<open>
  A \<^verbatim>\<open>[]byte\<close> is its \<open>elems\<close> (\<^verbatim>\<open>len\<close> of them) and the \<open>spare\<close> elements of its backing
  array between its length and its capacity. A slice expression \<^verbatim>\<open>d[low:high]\<close> with
  \<^verbatim>\<open>int64\<close> operands panics ("slice bounds out of range", \<open>None\<close>) unless
  \<open>0 \<le> low \<le> high \<le> cap d\<close>; otherwise it is the elements of the backing array from
  \<open>low\<close> up to \<open>high\<close>, the rest of the array being its spare capacity.
\<close>

record byteSlice =
  elems :: "8 word list"
  spare :: "8 word list"

definition cap :: "byteSlice \<Rightarrow> nat" where
  "cap d = length (elems d) + length (spare d)"

definition slice :: "byteSlice \<Rightarrow> int64 \<Rightarrow> int64 \<Rightarrow> byteSlice option" where
  "slice d low high =
     (let l = sint low; h = sint high; backing = elems d @ spare d in
      if 0 \<le> l \<and> l \<le> h \<and> h \<le> int (cap d)
      then Some \<lparr>elems = take (nat (h - l)) (drop (nat l) backing), spare = drop (nat h) backing\<rparr>
      else None)"

section \<open>Entities\<close>

text \<open>
  Modelled from the spec: the structs \<^verbatim>\<open>User\<close>, \<^verbatim>\<open>Game\<close> and \<^verbatim>\<open>Upload\<close>, whose declarations are
  in a file of the package that is not part of the listing. The records have the fields
  that \<^verbatim>\<open>formatters.go\<close> and \<^verbatim>\<open>serve\<close> read, identifiers and amounts as \<^verbatim>\<open>int64\<close>. Several
  structs share field names, so a field is written with its record's name where needed
  (\<open>Upload.ID\<close>). A pointer to a struct is the struct itself where the code has
  already dereferenced it, and an \<open>option\<close> where it may be nil.
\<close>

record User =
  ID :: int64
  Gamer :: bool
  Developer :: bool
  PressUser :: bool
  DisplayName :: string
  Username :: string
  AllowTelemetry :: bool

record Game =
  ID :: int64
  UserID :: int64
  Title :: string
  MinPrice :: int64
  Type :: string
  Classification :: string

record Upload =
  ID :: int64
  GameID :: int64
  Type :: string
  Storage :: string
  Size :: int64
  Filename :: string
  URL :: string
  PlatformLinux :: bool
  PlatformWindows :: bool
  PlatformMac :: bool
  Head :: int64

text \<open>
  Modelled from the spec: the struct \<^verbatim>\<open>CDNFile\<close> (a filename, a byte size and the raw content
  bytes), of which \<^verbatim>\<open>serve\<close> reads \<^verbatim>\<open>Filename\<close>, \<^verbatim>\<open>Size\<close> and \<^verbatim>\<open>Contents\<close>.
\<close>

record CDNFile =
  Filename :: string
  Size :: int64
  Contents :: byteSlice

text \<open>
  Modelled from the spec: a \<^verbatim>\<open>Build\<close> has an identifier, the identifier of its owning Upload
  and files keyed by a (type, subtype) pair; \<^verbatim>\<open>GetFile\<close> returns the file of a pair, or nil.
\<close>

record BuildFile =
  Type :: string
  SubType :: string

record Build =
  ID :: int64
  UploadID :: int64
  Files :: "string \<times> string \<Rightarrow> BuildFile option"

definition GetFile :: "Build \<Rightarrow> string \<Rightarrow> string \<Rightarrow> BuildFile option" where
  "GetFile build typ subtype = Files build (typ, subtype)"

text \<open>What \<^verbatim>\<open>ServeCDNAsset\<close> is given: an upload or a build file.\<close>

datatype CDNAsset = UploadAsset Upload | BuildFileAsset BuildFile

text \<open>
  Modelled from the spec: the \<^verbatim>\<open>Store\<close>, an in-memory repository keyed by identifier whose
  lookups are pure reads that return the entity or nothing. \<^verbatim>\<open>serve\<close> reads its map
  \<^verbatim>\<open>CDNFiles\<close> directly and calls \<^verbatim>\<open>FindGame\<close> on it.
\<close>

record Store =
  Games :: "int64 \<Rightarrow> Game option"
  Uploads :: "int64 \<Rightarrow> Upload option"
  Builds :: "int64 \<Rightarrow> Build option"
  CDNFiles :: "string \<Rightarrow> CDNFile option"

definition Store_FindGame :: "Store \<Rightarrow> int64 \<Rightarrow> Game option" where
  "Store_FindGame s gameID = Games s gameID"

section \<open>Formatters (formatters.go)\<close>

definition FormatUser :: "User \<Rightarrow> Any" where
  "FormatUser user =
     (let res = [(''id'', VInt (User.ID user)),
                 (''gamer'', VBool (Gamer user)),
                 (''developer'', VBool (Developer user)),
                 (''press_user'', VBool (PressUser user)),
                 (''display_name'', VStr (DisplayName user)),
                 (''username'', VStr (Username user)),
                 (''url'', VStr ''http://example.org''),
                 (''cover_url'', VStr ''http://example.org'')]
      in if AllowTelemetry user then AList.update ''allow_telemetry'' (VBool True) res else res)"

definition FormatGame :: "Game \<Rightarrow> Any" where
  "FormatGame game =
     [(''id'', VInt (Game.ID game)),
      (''user_id'', VInt (UserID game)),
      (''title'', VStr (Title game)),
      (''min_price'', VInt (MinPrice game)),
      (''type'', VStr (Game.Type game)),
      (''classification'', VStr (Classification game))]"

text \<open>
  \<^verbatim>\<open>FormatUpload\<close>: the literal, then the three conditional stores into \<^verbatim>\<open>platforms\<close>, then
  the store of \<^verbatim>\<open>platforms\<close> into the result.
\<close>

definition FormatUpload :: "Upload \<Rightarrow> Any" where
  "FormatUpload upload =
     (let res = [(''id'', VInt (Upload.ID upload)),
                 (''game_id'', VInt (GameID upload)),
                 (''type'', VStr (Upload.Type upload)),
                 (''storage'', VStr (Storage upload)),
                 (''size'', VInt (Upload.Size upload)),
                 (''filename'', VStr (Upload.Filename upload)),
                 (''url'', VStr (URL upload))];
          platforms = [];
          platforms = (if PlatformLinux upload
                       then AList.update ''linux'' (VStr ''all'') platforms else platforms);
          platforms = (if PlatformWindows upload
                       then AList.update ''windows'' (VStr ''all'') platforms else platforms);
          platforms = (if PlatformMac upload
                       then AList.update ''osx'' (VStr ''all'') platforms else platforms)
      in AList.update ''platforms'' (VMap platforms) res)"

text \<open>
  \<^verbatim>\<open>FormatUploads\<close>: \<^verbatim>\<open>res\<close> starts as the nil slice and the loop appends one formatted
  upload per element, in order.
\<close>

fun FormatUploads_loop :: "Any list option \<Rightarrow> Upload list \<Rightarrow> Any list option" where
  "FormatUploads_loop res [] = res"
| "FormatUploads_loop res (u # uploads) = FormatUploads_loop (append_slice res (FormatUpload u)) uploads"

definition FormatUploads :: "Upload list \<Rightarrow> Any list option" where
  "FormatUploads uploads = FormatUploads_loop None uploads"

text \<open>A \<^verbatim>\<open>[]Any\<close> stored in an \<^verbatim>\<open>Any\<close>, as in \<^verbatim>\<open>Any{"uploads": FormatUploads(uploads)}\<close>.\<close>

definition anySlice :: "Any list option \<Rightarrow> val" where
  "anySlice s = VSlice (map_option (map VMap) s)"

section \<open>The request context\<close>

text \<open>
  A request as the handlers read it: the method, \<^verbatim>\<open>URL.Path\<close>, the header (under
  canonical keys, as \<^verbatim>\<open>net/http\<close> stores it) and the route variables the router extracted
  (\<^verbatim>\<open>mux.Vars\<close>).
\<close>

record request =
  Method :: string
  Path :: string
  Header :: Header
  Vars :: "(string \<times> string) list"

text \<open>
  The \<^verbatim>\<open>http.ResponseWriter\<close>: the header map the handler fills, the status and header
  block once they are written (\<open>sent\<close>; headers set later are not), and the body
  written so far, as the chunks of the \<^verbatim>\<open>Write\<close> calls: a JSON document or raw bytes.
\<close>

datatype chunk = JSON val | Bytes "8 word list"

record ResponseWriter =
  headers :: Header
  sent :: "(int \<times> Header) option"
  body :: "chunk list"

text \<open>
  The struct \<^verbatim>\<open>response\<close> that \<^verbatim>\<open>serve\<close> builds for a request: the writer (field \<^verbatim>\<open>w\<close>, here
  \<open>wr\<close>), the request and the store, and the fields \<^verbatim>\<open>status\<close> and \<^verbatim>\<open>currentUser\<close> that the
  handlers use.
\<close>

record response =
  wr :: ResponseWriter
  req :: request
  store :: Store
  status :: int
  currentUser :: "User option"

text \<open>
  A panic carries a value. \<^verbatim>\<open>serve\<close> tells three kinds apart: an error whose cause is an
  \<^verbatim>\<open>APIError\<close> (a status and messages), any other error (with the text \<^verbatim>\<open>%+v\<close> prints for
  it), and a value that is not an error (with the text \<^verbatim>\<open>%+v\<close> prints for it and the
  stack trace that \<^verbatim>\<open>errors.Errorf\<close> records and \<^verbatim>\<open>%+v\<close> prints after the message).
\<close>

datatype panicValue =
    ErrAPI int "string list"
  | ErrOther string
  | NotError string string

text \<open>
  A function that works on a \<^verbatim>\<open>*response\<close> returns a value or panics, and leaves the
  response as it was at that moment.
\<close>

datatype 'a outcome = Returns 'a | Panics panicValue

type_synonym 'a action = "response \<Rightarrow> 'a outcome \<times> response"

definition andThen :: "'a action \<Rightarrow> ('a \<Rightarrow> 'b action) \<Rightarrow> 'b action" where
  "andThen m f r = (case m r of (Returns x, r') \<Rightarrow> f x r' | (Panics p, r') \<Rightarrow> (Panics p, r'))"

text \<open>
  The run-time panics of the Go runtime are errors. Their text starts as below (newer
  runtimes add the offending indices to the first two).
\<close>

definition indexOutOfRange :: panicValue where
  "indexOutOfRange = ErrOther ''runtime error: index out of range''"

definition sliceBoundsOutOfRange :: panicValue where
  "sliceBoundsOutOfRange = ErrOther ''runtime error: slice bounds out of range''"

definition nilDereference :: panicValue where
  "nilDereference = ErrOther ''runtime error: invalid memory address or nil pointer dereference''"

text \<open>
  The parts of the package that \<^verbatim>\<open>serve\<close> calls and that neither the listing nor the spec
  determines, taken as parameters: the user an API key on the request resolves to; the
  capability predicates (on a Game pointer that may be nil, and on an Upload), where
  \<open>None\<close> is a run-time panic inside the predicate; the uploads of a game; how an asset
  is served; and what \<^verbatim>\<open>RespondTo\<close> does for a method it has no entry for.
\<close>

record deps =
  apiKeyUser :: "request \<Rightarrow> User option"
  CanBeViewedBy :: "Game option \<Rightarrow> User option \<Rightarrow> bool option"
  CanBeDownloadedBy :: "Upload \<Rightarrow> User option \<Rightarrow> bool option"
  ListUploadsByGame :: "Store \<Rightarrow> int64 \<Rightarrow> Upload list"
  ServeCDNAsset :: "CDNAsset \<Rightarrow> response \<Rightarrow> unit outcome \<times> response"
  unmappedMethod :: "response \<Rightarrow> unit outcome \<times> response"

definition predicate :: "bool option \<Rightarrow> bool action" where
  "predicate b r = (case b of None \<Rightarrow> (Panics nilDereference, r) | Some v \<Rightarrow> (Returns v, r))"

text \<open>
  Modelled from the spec: \<^verbatim>\<open>Throw(status, messages...)\<close>, the abort signal. It ends the
  handler at once with a structured error that carries the status and the messages.
\<close>

definition Throw :: "int \<Rightarrow> string list \<Rightarrow> 'a action" where
  "Throw st messages r = (Panics (ErrAPI st messages), r)"

text \<open>
  Modelled from the spec: \<^verbatim>\<open>CheckAPIKey\<close> aborts with 401 if no valid API key is on the
  request, and otherwise attaches the user it resolves to.
\<close>

definition CheckAPIKey :: "deps \<Rightarrow> unit action" where
  "CheckAPIKey D r =
     (case apiKeyUser D (req r) of
        None \<Rightarrow> Throw 401 [''invalid API key''] r
      | Some u \<Rightarrow> (Returns (), r\<lparr>currentUser := Some u\<rparr>))"

text \<open>
  Modelled from the spec: \<^verbatim>\<open>Var\<close> and \<^verbatim>\<open>Int64Var\<close> read a route variable of the request
  (\<open>routeVar\<close>, the empty string when the route has none of that name); \<^verbatim>\<open>Int64Var\<close>
  aborts with 400 if it does not parse as an integer.
\<close>

definition routeVar :: "request \<Rightarrow> string \<Rightarrow> string" where
  "routeVar rq name = (case map_of (Vars rq) name of None \<Rightarrow> [] | Some v \<Rightarrow> v)"

definition Var :: "string \<Rightarrow> response \<Rightarrow> string" where
  "Var name r = routeVar (req r) name"

definition Int64Var :: "string \<Rightarrow> int64 action" where
  "Int64Var name r =
     (case ParseInt (Var name r) of
        None \<Rightarrow> Throw 400 [''invalid '' @ name] r
      | Some v \<Rightarrow> (Returns v, r))"

text \<open>
  Modelled from the spec: \<^verbatim>\<open>FindGame\<close>, \<^verbatim>\<open>FindUpload\<close> and \<^verbatim>\<open>FindBuild\<close> of the request
  context are store lookups that abort with 404 ("not found") when the entity is absent.
\<close>

definition FindGame :: "int64 \<Rightarrow> Game action" where
  "FindGame gameID r =
     (case Store_FindGame (store r) gameID of
        None \<Rightarrow> Throw 404 [''not found''] r
      | Some game \<Rightarrow> (Returns game, r))"

definition FindUpload :: "int64 \<Rightarrow> Upload action" where
  "FindUpload uploadID r =
     (case Uploads (store r) uploadID of
        None \<Rightarrow> Throw 404 [''not found''] r
      | Some upload \<Rightarrow> (Returns upload, r))"

definition FindBuild :: "int64 \<Rightarrow> Build action" where
  "FindBuild buildID r =
     (case Builds (store r) buildID of
        None \<Rightarrow> Throw 404 [''not found''] r
      | Some build \<Rightarrow> (Returns build, r))"

text \<open>
  Modelled from the spec: \<^verbatim>\<open>AssertAuthorization\<close> aborts with 403 if the predicate's value
  is false.
\<close>

definition AssertAuthorization :: "bool \<Rightarrow> unit action" where
  "AssertAuthorization authorized r =
     (if authorized then (Returns (), r) else Throw 403 [''unauthorized''] r)"

text \<open>
  Modelled from the spec: \<^verbatim>\<open>WriteHeader\<close> sends the status held in \<^verbatim>\<open>r.status\<close> with the
  headers set so far; once they are sent they are frozen, so a second call changes
  nothing. \<open>Write\<close> is \<^verbatim>\<open>r.w.Write\<close> (and \<^verbatim>\<open>io.Copy\<close> to \<^verbatim>\<open>r.w\<close>).
\<close>

definition WriteHeader :: "response \<Rightarrow> response" where
  "WriteHeader r =
     (case sent (wr r) of
        None \<Rightarrow> r\<lparr>wr := (wr r)\<lparr>sent := Some (status r, headers (wr r))\<rparr>\<rparr>
      | Some x \<Rightarrow> r)"

definition Write :: "chunk \<Rightarrow> response \<Rightarrow> response" where
  "Write c r = r\<lparr>wr := (wr r)\<lparr>body := body (wr r) @ [c]\<rparr>\<rparr>"

text \<open>
  Modelled from the spec: \<^verbatim>\<open>WriteJSON\<close> serialises the mapping, sets status 200 unless a
  status is already set, and writes it as the response body.
\<close>

definition WriteJSON :: "Any \<Rightarrow> response \<Rightarrow> response" where
  "WriteJSON payload r =
     (let r = (if status r = 0 then r\<lparr>status := 200\<rparr> else r);
          r = WriteHeader r
      in Write (JSON (VMap payload)) r)"

text \<open>
  Modelled from the spec: \<^verbatim>\<open>WriteError(status, messages...)\<close> writes a JSON error body
  \<^verbatim>\<open>{errors: [...]}\<close> with that status. A variadic parameter given no argument is the nil
  slice.
\<close>

definition variadic :: "string list \<Rightarrow> val" where
  "variadic xs = VSlice (if xs = [] then None else Some (map VStr xs))"

definition WriteError :: "int \<Rightarrow> string list \<Rightarrow> response \<Rightarrow> response" where
  "WriteError st errors r = WriteJSON [(''errors'', variadic errors)] (r\<lparr>status := st\<rparr>)"

text \<open>
  Modelled from the spec: \<^verbatim>\<open>RespondTo\<close> runs the closure that the map holds for the
  request's method.
\<close>

definition RespondTo :: "deps \<Rightarrow> (string \<times> unit action) list \<Rightarrow> unit action" where
  "RespondTo D m r =
     (case map_of m (Method (req r)) of
        None \<Rightarrow> unmappedMethod D r
      | Some h \<Rightarrow> h r)"

text \<open>\<^verbatim>\<open>r.Header().Set(key, v)\<close>: the header map of the writer.\<close>

definition Header_set :: "string \<Rightarrow> string \<Rightarrow> response \<Rightarrow> response" where
  "Header_set key v r = r\<lparr>wr := (wr r)\<lparr>headers := Header_Set key v (headers (wr r))\<rparr>\<rparr>"

section \<open>serve\<close>

subsection \<open>The wrapper of every handler\<close>

text \<open>
  \<^verbatim>\<open>handler(ch)\<close> builds the \<^verbatim>\<open>response\<close> and runs \<^verbatim>\<open>ch\<close> under a deferred \<^verbatim>\<open>recover\<close>. A
  recovered error whose cause is an \<^verbatim>\<open>APIError\<close> is written with its status and messages;
  any other error is returned as it is, and a value that is not an error as
  \<^verbatim>\<open>errors.Errorf("panic: %+v", r)\<close>; the returned error \<^verbatim>\<open>err\<close> is then written as
  \<^verbatim>\<open>WriteError(500, fmt.Sprintf("internal error: %+v", err))\<close>.
\<close>

definition handler :: "Store \<Rightarrow> unit action \<Rightarrow> ResponseWriter \<Rightarrow> request \<Rightarrow> response" where
  "handler s ch w rq =
     (let res = \<lparr>wr = w, req = rq, store = s, status = 0, currentUser = None\<rparr>
      in case ch res of
           (Returns u, res) \<Rightarrow> res
         | (Panics (ErrAPI st messages), res) \<Rightarrow> WriteError st messages res
         | (Panics (ErrOther text), res) \<Rightarrow> WriteError 500 [''internal error: '' @ text] res
         | (Panics (NotError text trace), res) \<Rightarrow>
             WriteError 500 [''internal error: '' @ (''panic: '' @ text @ trace)] res)"

subsection \<open>The routes\<close>

text \<open>
  Each route is the \<^verbatim>\<open>coolHandler\<close> that \<^verbatim>\<open>serve\<close> registers for it; matching a request to its
  route is the router's work. The route \<^verbatim>\<open>/games/{id}/download-sessions\<close> answers with a
  fresh random identifier and is left out.
\<close>

text \<open>\<^verbatim>\<open>/profile\<close>\<close>

definition profile_GET :: "deps \<Rightarrow> unit action" where
  "profile_GET D =
     andThen (CheckAPIKey D) (\<lambda>_ r.
       case currentUser r of
         None \<Rightarrow> (Panics nilDereference, r)
       | Some user \<Rightarrow> (Returns (), WriteJSON [(''user'', VMap (FormatUser user))] r))"

definition profile_route :: "deps \<Rightarrow> unit action" where
  "profile_route D = RespondTo D [(''GET'', profile_GET D)]"

text \<open>\<^verbatim>\<open>/games/{id}\<close>\<close>

definition games_GET :: "deps \<Rightarrow> unit action" where
  "games_GET D =
     andThen (CheckAPIKey D) (\<lambda>_.
     andThen (Int64Var ''id'') (\<lambda>gameID.
     andThen (FindGame gameID) (\<lambda>game.
     andThen (\<lambda>r. predicate (CanBeViewedBy D (Some game) (currentUser r)) r) (\<lambda>authorized.
     andThen (AssertAuthorization authorized) (\<lambda>_ r.
       (Returns (), WriteJSON [(''game'', VMap (FormatGame game))] r))))))"

definition games_route :: "deps \<Rightarrow> unit action" where
  "games_route D = RespondTo D [(''GET'', games_GET D)]"

text \<open>\<^verbatim>\<open>/games/{id}/uploads\<close>: the game is looked up with \<^verbatim>\<open>r.store.FindGame\<close>.\<close>

definition games_uploads_GET :: "deps \<Rightarrow> unit action" where
  "games_uploads_GET D =
     andThen (CheckAPIKey D) (\<lambda>_.
     andThen (Int64Var ''id'') (\<lambda>gameID r.
       (let game = Store_FindGame (store r) gameID in
        andThen (predicate (CanBeViewedBy D game (currentUser r))) (\<lambda>authorized.
        andThen (AssertAuthorization authorized) (\<lambda>_ r.
          (let uploads = ListUploadsByGame D (store r) gameID
           in (Returns (), WriteJSON [(''uploads'', anySlice (FormatUploads uploads))] r)))) r)))"

definition games_uploads_route :: "deps \<Rightarrow> unit action" where
  "games_uploads_route D = RespondTo D [(''GET'', games_uploads_GET D)]"

text \<open>\<^verbatim>\<open>/uploads/{id}/download\<close>, with its switch on \<^verbatim>\<open>upload.Storage\<close>.\<close>

definition uploads_download_GET :: "deps \<Rightarrow> unit action" where
  "uploads_download_GET D =
     andThen (CheckAPIKey D) (\<lambda>_.
     andThen (Int64Var ''id'') (\<lambda>uploadID.
     andThen (FindUpload uploadID) (\<lambda>upload.
     andThen (\<lambda>r. predicate (CanBeDownloadedBy D upload (currentUser r)) r) (\<lambda>authorized.
     andThen (AssertAuthorization authorized) (\<lambda>_.
       if Storage upload = ''hosted'' then ServeCDNAsset D (UploadAsset upload)
       else if Storage upload = ''build'' then
         andThen (FindBuild (Head upload)) (\<lambda>build.
           case GetFile build ''archive'' ''default'' of
             None \<Rightarrow> Throw 404 [''no archive for build'']
           | Some archive \<Rightarrow> ServeCDNAsset D (BuildFileAsset archive))
       else Throw 500 [''unsupported storage''])))))"

definition uploads_download_route :: "deps \<Rightarrow> unit action" where
  "uploads_download_route D = RespondTo D [(''GET'', uploads_download_GET D)]"

text \<open>\<^verbatim>\<open>/builds/{id}/download/{type}/{subtype}\<close>\<close>

definition builds_download_GET :: "deps \<Rightarrow> unit action" where
  "builds_download_GET D =
     andThen (CheckAPIKey D) (\<lambda>_.
     andThen (Int64Var ''id'') (\<lambda>buildID.
     andThen (FindBuild buildID) (\<lambda>build.
     andThen (FindUpload (UploadID build)) (\<lambda>upload.
     andThen (\<lambda>r. predicate (CanBeDownloadedBy D upload (currentUser r)) r) (\<lambda>authorized.
     andThen (AssertAuthorization authorized) (\<lambda>_ r.
       (let typ = Var ''type'' r;
            subtype = Var ''subtype'' r
        in case GetFile build typ subtype of
             None \<Rightarrow> Throw 404 [''no '' @ typ @ ''/'' @ subtype @ '' build file''] r
           | Some bf \<Rightarrow> ServeCDNAsset D (BuildFileAsset bf) r)))))))"

definition builds_download_route :: "deps \<Rightarrow> unit action" where
  "builds_download_route D = RespondTo D [(''GET'', builds_download_GET D)]"

text \<open>
  \<^verbatim>\<open>/@cdn\<close> (a prefix route). \<open>cdn_send\<close> is the end of the handler, from the
  \<^verbatim>\<open>content-length\<close> header on; \<open>cdn_range\<close> is the branch for a Range header that is not
  empty, and \<open>cdn_GET\<close> the closure registered for GET.
\<close>

definition cdn_send :: "CDNFile \<Rightarrow> int64 \<Rightarrow> byteSlice \<Rightarrow> unit action" where
  "cdn_send f contentLength data r =
     (let r = Header_set ''content-length'' (FormatInt (sint contentLength)) r;
          r = Header_set ''accept-range'' ''bytes'' r;
          r = Header_set ''content-type'' ''application/octet-stream'' r;
          r = Header_set ''content-disposition''
                (''attachment; filename='' @ Quote (CDNFile.Filename f)) r;
          r = Header_set ''connection'' ''close'' r;
          r = WriteHeader r;
          r = Write (Bytes (elems data)) r
      in (Returns (), r))"

definition cdn_range :: "CDNFile \<Rightarrow> string \<Rightarrow> unit action" where
  "cdn_range f rangeHeader r =
     (let data = Contents f;
          rangeTokens = Split rangeHeader CHR ''=''
      in case index rangeTokens 1 of
           None \<Rightarrow> (Panics indexOutOfRange, r)
         | Some rangeSpec \<Rightarrow>
            (let byteTokens = Split rangeSpec CHR ''-''
             in case index byteTokens 0 of
                  None \<Rightarrow> (Panics indexOutOfRange, r)
                | Some token0 \<Rightarrow>
                   (let start = (case ParseInt token0 of Some startVal \<Rightarrow> startVal | None \<Rightarrow> 0)
                    in case index byteTokens 1 of
                         None \<Rightarrow> (Panics indexOutOfRange, r)
                       | Some token1 \<Rightarrow>
                          (let end = (case ParseInt token1 of Some endVal \<Rightarrow> endVal
                                      | None \<Rightarrow> CDNFile.Size f - 1)
                           in case slice data start (end + 1) of
                                None \<Rightarrow> (Panics sliceBoundsOutOfRange, r)
                              | Some data \<Rightarrow>
                                 (let contentLength = end + 1 - start;
                                      r = r\<lparr>status := 206\<rparr>;
                                      r = Header_set ''content-range''
                                            (''bytes '' @ FormatInt (sint start) @ ''-'' @
                                             FormatInt (sint end) @ ''/'' @
                                             FormatInt (sint (CDNFile.Size f))) r
                                  in cdn_send f contentLength data r)))))"

definition cdn_GET :: "unit action" where
  "cdn_GET r =
     (let path = Path (req r);
          path = TrimPrefix path ''/@cdn''
      in case CDNFiles (store r) path of
           None \<Rightarrow> Throw 404 [''not found''] r
         | Some f \<Rightarrow>
            (let contentLength = CDNFile.Size f;
                 rangeHeader = Header_Get (Header (req r)) ''Range'';
                 data = Contents f
             in if rangeHeader = [] then cdn_send f contentLength data (r\<lparr>status := 200\<rparr>)
                else cdn_range f rangeHeader r))"

definition cdn_route :: "deps \<Rightarrow> unit action" where
  "cdn_route D = RespondTo D [(''GET'', cdn_GET)]"

text \<open>Every other path.\<close>

definition default_route :: "unit action" where
  "default_route = Throw 404 [''invalid api endpoint'']"

subsection \<open>What the client receives\<close>

text \<open>
  A request is served on a fresh writer. The client sees the status and the headers that
  were sent, and the body. A header is asked for by its name, in any case.
\<close>

definition emptyWriter :: ResponseWriter where
  "emptyWriter = \<lparr>headers = [], sent = None, body = []\<rparr>"

definition respStatus :: "response \<Rightarrow> int option" where
  "respStatus r = map_option fst (sent (wr r))"

definition respHeader :: "response \<Rightarrow> string \<Rightarrow> string list option" where
  "respHeader r key =
     (case sent (wr r) of None \<Rightarrow> None | Some x \<Rightarrow> map_of (snd x) (CanonicalMIMEHeaderKey key))"

definition respBody :: "response \<Rightarrow> chunk list" where
  "respBody r = body (wr r)"

text \<open>The header map that \<open>cdn_send\<close> leaves, from the one it finds.\<close>

definition cdn_headers :: "CDNFile \<Rightarrow> int64 \<Rightarrow> Header \<Rightarrow> Header" where
  "cdn_headers f contentLength h =
     Header_Set ''connection'' ''close''
       (Header_Set ''content-disposition'' (''attachment; filename='' @ Quote (CDNFile.Filename f))
         (Header_Set ''content-type'' ''application/octet-stream''
           (Header_Set ''accept-range'' ''bytes''
             (Header_Set ''content-length'' (FormatInt (sint contentLength)) h))))"

section \<open>Example inputs\<close>

text \<open>
  A store with one CDN file of ten bytes; upload 3, stored as build 5, which has no file;
  upload 4, stored as build 6, which has the file ("archive", "default"); upload 8, whose
  storage kind is unknown; no game. Every API key resolves to one user, the predicates allow
  everything but dereference the Game they are given, and an asset is served by naming it.
\<close>

definition exampleFile :: CDNFile where
  "exampleFile = \<lparr>Filename = ''game.zip'', Size = 10,
     Contents = \<lparr>elems = [10, 11, 12, 13, 14, 15, 16, 17, 18, 19], spare = []\<rparr>\<rparr>"

definition exampleUser :: User where
  "exampleUser = \<lparr>User.ID = 1, Gamer = True, Developer = False, PressUser = False,
     DisplayName = ''Ann'', Username = ''ann'', AllowTelemetry = False\<rparr>"

definition exampleUpload :: Upload where
  "exampleUpload = \<lparr>Upload.ID = 3, GameID = 2, Upload.Type = ''default'', Storage = ''build'',
     Upload.Size = 10, Upload.Filename = ''game.zip'', URL = [], PlatformLinux = True,
     PlatformWindows = False, PlatformMac = False, Head = 5\<rparr>"

definition exampleBuild :: Build where
  "exampleBuild = \<lparr>Build.ID = 5, UploadID = 3, Files = (\<lambda>k. None)\<rparr>"

definition exampleArchive :: BuildFile where
  "exampleArchive = \<lparr>BuildFile.Type = ''archive'', SubType = ''default''\<rparr>"

definition archivedBuild :: Build where
  "archivedBuild = \<lparr>Build.ID = 6, UploadID = 4,
     Files = (\<lambda>k. if k = (''archive'', ''default'') then Some exampleArchive else None)\<rparr>"

definition archivedUpload :: Upload where
  "archivedUpload = exampleUpload\<lparr>Upload.ID := 4, Head := 6\<rparr>"

definition tapeUpload :: Upload where
  "tapeUpload = exampleUpload\<lparr>Upload.ID := 8, Storage := ''tape''\<rparr>"

definition exampleStore :: Store where
  "exampleStore = \<lparr>Games = (\<lambda>k. None),
     Uploads = (\<lambda>k. if k = 3 then Some exampleUpload
                    else if k = 4 then Some archivedUpload
                    else if k = 8 then Some tapeUpload
                    else None),
     Builds = (\<lambda>k. if k = 5 then Some exampleBuild
                   else if k = 6 then Some archivedBuild
                   else None),
     CDNFiles = (\<lambda>k. if k = ''/game.zip'' then Some exampleFile else None)\<rparr>"

definition exampleDeps :: deps where
  "exampleDeps = \<lparr>apiKeyUser = (\<lambda>rq. Some exampleUser),
     CanBeViewedBy = (\<lambda>game user. case game of None \<Rightarrow> None | Some g \<Rightarrow> Some True),
     CanBeDownloadedBy = (\<lambda>upload user. Some True),
     ListUploadsByGame = (\<lambda>s gameID. []),
     ServeCDNAsset = (\<lambda>asset r. (Returns (), WriteJSON [(''asset'', VStr
        (case asset of UploadAsset u \<Rightarrow> Upload.Filename u
         | BuildFileAsset bf \<Rightarrow> BuildFile.Type bf @ ''/'' @ SubType bf))] r)),
     unmappedMethod = Throw 405 [''method not allowed'']\<rparr>"

definition cdnRequest :: "string \<Rightarrow> request" where
  "cdnRequest rangeHeader = \<lparr>Method = ''GET'', Path = ''/@cdn/game.zip'',
     Header = (if rangeHeader = [] then [] else [(''Range'', [rangeHeader])]), Vars = []\<rparr>"

definition apiRequest :: "string \<Rightarrow> (string \<times> string) list \<Rightarrow> request" where
  "apiRequest path vars = \<lparr>Method = ''GET'', Path = path, Header = [], Vars = vars\<rparr>"

text \<open>Handlers that panic at once: with an error of a given text, and with a value that is
  not an error (and no stack trace).\<close>

definition failingHandler :: "string \<Rightarrow> unit action" where
  "failingHandler detail r = (Panics (ErrOther detail), r)"

definition panickingHandler :: "string \<Rightarrow> unit action" where
  "panickingHandler v r = (Panics (NotError v []), r)"

section \<open>Properties of the formatters\<close>

lemma FormatUploads_loop_eq:
  "FormatUploads_loop res us =
     (if us = [] then res
      else Some ((case res of None \<Rightarrow> [] | Some xs \<Rightarrow> xs) @ map FormatUpload us))"
proof (induction us arbitrary: res)
  case Nil
  show ?case by simp
next
  case (Cons u us)
  show ?case
    by (cases res) (simp_all add: Cons.IH append_slice_def)
qed

lemma map_of_platforms:
  "map_of (FormatUpload u) ''platforms'' =
     Some (VMap ((if PlatformLinux u then [(''linux'', VStr ''all'')] else []) @
                 (if PlatformWindows u then [(''windows'', VStr ''all'')] else []) @
                 (if PlatformMac u then [(''osx'', VStr ''all'')] else [])))"
  by (simp add: FormatUpload_def Let_def)

text \<open>
  C7. For every Upload \<open>u\<close>, the value stored under "platforms" in \<open>FormatUpload u\<close> is an
  object in which "linux" is present, with the value "all", exactly when
  \<open>PlatformLinux u\<close> holds, "windows" exactly when \<open>PlatformWindows u\<close> holds and "osx"
  exactly when \<open>PlatformMac u\<close> holds; the object has no key besides these three.
\<close>

theorem FormatUpload_platforms:
  "\<exists>p. map_of (FormatUpload u) ''platforms'' = Some (VMap p)
     \<and> map_of p ''linux'' = (if PlatformLinux u then Some (VStr ''all'') else None)
     \<and> map_of p ''windows'' = (if PlatformWindows u then Some (VStr ''all'') else None)
     \<and> map_of p ''osx'' = (if PlatformMac u then Some (VStr ''all'') else None)
     \<and> set (map fst p) \<subseteq> {''linux'', ''windows'', ''osx''}"
  unfolding map_of_platforms by (intro exI conjI, rule refl) auto

text \<open>
  C9. For every list of Uploads \<open>us\<close>, \<open>FormatUploads us\<close> holds as many elements as
  \<open>us\<close>, the i-th being \<open>FormatUpload\<close> of the i-th upload (its elements are
  \<open>map FormatUpload us\<close>); it is the nil slice exactly when \<open>us\<close> is empty, and for the
  empty list the value written under "uploads" is marshalled as JSON \<^verbatim>\<open>null\<close>, not as
  an empty array.
\<close>

theorem FormatUploads_elements:
  "(case FormatUploads us of None \<Rightarrow> [] | Some xs \<Rightarrow> xs) = map FormatUpload us
   \<and> (FormatUploads us = None) = (us = [])
   \<and> FormatUploads [] = None
   \<and> marshal (anySlice (FormatUploads [])) = JNull
   \<and> marshal (anySlice (FormatUploads [])) \<noteq> JArray []
   \<and> marshal (VMap [(''uploads'', anySlice (FormatUploads []))]) = JObject [(''uploads'', JNull)]"
  by (simp add: FormatUploads_def FormatUploads_loop_eq anySlice_def)

section \<open>Properties of the library functions\<close>

lemma sint_bounds64: "- 9223372036854775808 \<le> sint (x :: int64)" "sint (x :: int64) < 9223372036854775808"
  using sint_ge [of x] sint_lt [of x] by simp_all

lemma sint_succ:
  fixes e s :: int64
  assumes "sint e < sint s"
  shows "sint (e + 1) = sint e + 1"
proof -
  have "sint e + 1 < 9223372036854775808" using assms sint_bounds64(2) [of s] by linarith
  moreover have "- 9223372036854775808 \<le> sint e + 1" using sint_bounds64(1) [of e] by linarith
  ultimately have "signed_take_bit 63 (sint e + 1) = sint e + 1"
    by (intro signed_take_bit_int_eq_self) simp_all
  then show ?thesis by (simp add: sint_word_add)
qed

lemma sint_diff:
  fixes a b :: int64
  assumes "0 \<le> sint a" "sint a \<le> sint b"
  shows "sint (b - a) = sint b - sint a"
proof -
  have "sint b - sint a < 9223372036854775808" using assms sint_bounds64(2) [of b] by linarith
  moreover have "- 9223372036854775808 \<le> sint b - sint a" using assms by linarith
  ultimately have "signed_take_bit 63 (sint b - sint a) = sint b - sint a"
    by (intro signed_take_bit_int_eq_self) simp_all
  then show ?thesis by (simp add: sint_word_diff)
qed

lemma sint_of_nat64:
  assumes "n < 9223372036854775808"
  shows "sint (of_nat n :: int64) = int n"
proof -
  have "signed_take_bit 63 (int n) = int n"
    using assms by (intro signed_take_bit_int_eq_self) simp_all
  then show ?thesis by (simp add: signed_of_nat)
qed

lemma ParseInt_nonneg:
  assumes "ParseInt t = Some v" "CHR ''-'' \<notin> set t"
  shows "0 \<le> sint v"
  using assms
  by (auto simp: ParseInt_def sint_of_nat64 split: list.splits if_splits option.splits)

lemma Split_nonempty: "Split s c \<noteq> []"
  by (induction s) (auto split: list.splits)

lemma Split_no_sep: "t \<in> set (Split s c) \<Longrightarrow> c \<notin> set t"
proof (induction s arbitrary: t)
  case Nil
  then show ?case by simp
next
  case (Cons x xs)
  show ?case
  proof (cases "x = c")
    case True
    with Cons show ?thesis by auto
  next
    case False
    obtain u us where us: "Split xs c = u # us"
      using Split_nonempty [of xs c] by (cases "Split xs c") auto
    with False Cons.prems have "t = x # u \<or> t \<in> set us" by auto
    then show ?thesis
      using False Cons.IH [of u] Cons.IH [of t] us by auto
  qed
qed

lemma canonical_keys:
  "CanonicalMIMEHeaderKey ''content-length'' = ''Content-Length''"
  "CanonicalMIMEHeaderKey ''accept-range'' = ''Accept-Range''"
  "CanonicalMIMEHeaderKey ''content-type'' = ''Content-Type''"
  "CanonicalMIMEHeaderKey ''content-disposition'' = ''Content-Disposition''"
  "CanonicalMIMEHeaderKey ''connection'' = ''Connection''"
  "CanonicalMIMEHeaderKey ''content-range'' = ''Content-Range''"
  "CanonicalMIMEHeaderKey ''Range'' = ''Range''"
  "CanonicalMIMEHeaderKey ''Content-Length'' = ''Content-Length''"
  "CanonicalMIMEHeaderKey ''Accept-Ranges'' = ''Accept-Ranges''"
  "CanonicalMIMEHeaderKey ''Accept-Range'' = ''Accept-Range''"
  "CanonicalMIMEHeaderKey ''Content-Type'' = ''Content-Type''"
  "CanonicalMIMEHeaderKey ''Content-Disposition'' = ''Content-Disposition''"
  "CanonicalMIMEHeaderKey ''Connection'' = ''Connection''"
  "CanonicalMIMEHeaderKey ''Content-Range'' = ''Content-Range''"
  by (simp_all add: CanonicalMIMEHeaderKey_def validHeaderFieldByte_def toUpper_def toLower_def)

lemma map_of_Header_Set:
  "map_of (Header_Set k v h) k' = (if CanonicalMIMEHeaderKey k = k' then Some [v] else map_of h k')"
  by (simp add: Header_Set_def update_conv')

lemma index_1_Some:
  assumes "index xs 1 = Some y"
  obtains a rest where "xs = a # y # rest"
proof (cases xs)
  case Nil
  with assms show ?thesis by (simp add: index_def)
next
  case (Cons a ys)
  show ?thesis
  proof (cases ys)
    case Nil
    with Cons assms show ?thesis by (simp add: index_def)
  next
    case (Cons b zs)
    with \<open>xs = a # ys\<close> assms have "xs = a # y # zs" by (simp add: index_def)
    then show ?thesis by (rule that)
  qed
qed

section \<open>The wrapper and the CDN route, step by step\<close>

lemma cdn_send_eq:
  "sent (wr r) = None \<Longrightarrow>
   cdn_send f cl d r =
     (Returns (), r\<lparr>wr := \<lparr>headers = cdn_headers f cl (headers (wr r)),
                           sent = Some (status r, cdn_headers f cl (headers (wr r))),
                           body = body (wr r) @ [Bytes (elems d)]\<rparr>\<rparr>)"
  by (simp add: cdn_send_def cdn_headers_def Header_set_def WriteHeader_def Write_def)

lemma respStatus_WriteError:
  "sent (wr r) = None \<Longrightarrow> st \<noteq> 0 \<Longrightarrow> respStatus (WriteError st msgs r) = Some st"
  by (simp add: respStatus_def WriteError_def WriteJSON_def WriteHeader_def Write_def)

lemma respBody_WriteError:
  "respBody (WriteError st msgs r) = body (wr r) @ [JSON (VMap [(''errors'', variadic msgs)])]"
  by (simp add: respBody_def WriteError_def WriteJSON_def WriteHeader_def Write_def Let_def
      split: option.splits)

lemma respHeader_WriteError:
  "sent (wr r) = None \<Longrightarrow>
   respHeader (WriteError st msgs r) k = map_of (headers (wr r)) (CanonicalMIMEHeaderKey k)"
  by (simp add: respHeader_def WriteError_def WriteJSON_def WriteHeader_def Write_def)

lemma handler_Returns:
  "ch \<lparr>wr = w, req = rq, store = s, status = 0, currentUser = None\<rparr> = (Returns u, r') \<Longrightarrow>
   handler s ch w rq = r'"
  by (simp add: handler_def)

lemma handler_Panics:
  "ch \<lparr>wr = w, req = rq, store = s, status = 0, currentUser = None\<rparr> = (Panics p, r') \<Longrightarrow>
   handler s ch w rq =
     (case p of
        ErrAPI st messages \<Rightarrow> WriteError st messages r'
      | ErrOther text \<Rightarrow> WriteError 500 [''internal error: '' @ text] r'
      | NotError text trace \<Rightarrow> WriteError 500 [''internal error: '' @ (''panic: '' @ text @ trace)] r')"
  by (simp add: handler_def split: panicValue.splits)

lemma RespondTo_GET:
  "Method (req r) = ''GET'' \<Longrightarrow> RespondTo D [(''GET'', h)] r = h r"
  by (simp add: RespondTo_def)

lemma cdn_range_eq:
  assumes "Split h CHR ''='' = u # spec # others"
    and "Split spec CHR ''-'' = token0 # token1 # rest"
  shows "cdn_range f h r =
     (case slice (Contents f)
             (case ParseInt token0 of Some v \<Rightarrow> v | None \<Rightarrow> 0)
             ((case ParseInt token1 of Some v \<Rightarrow> v | None \<Rightarrow> CDNFile.Size f - 1) + 1) of
        None \<Rightarrow> (Panics sliceBoundsOutOfRange, r)
      | Some d \<Rightarrow>
          cdn_send f
            ((case ParseInt token1 of Some v \<Rightarrow> v | None \<Rightarrow> CDNFile.Size f - 1) + 1
               - (case ParseInt token0 of Some v \<Rightarrow> v | None \<Rightarrow> 0)) d
            (Header_set ''content-range''
               (''bytes '' @ FormatInt (sint (case ParseInt token0 of Some v \<Rightarrow> v | None \<Rightarrow> 0)) @
                ''-'' @ FormatInt (sint (case ParseInt token1 of Some v \<Rightarrow> v
                                          | None \<Rightarrow> CDNFile.Size f - 1)) @
                ''/'' @ FormatInt (sint (CDNFile.Size f)))
               (r\<lparr>status := 206\<rparr>)))"
  using assms by (simp add: cdn_range_def index_def Let_def split: option.splits)

lemma cdn_range_no_spec:
  "Split h CHR ''='' = [u] \<Longrightarrow> cdn_range f h r = (Panics indexOutOfRange, r)"
  by (simp add: cdn_range_def index_def)

lemma cdn_range_no_end:
  "Split h CHR ''='' = u # spec # others \<Longrightarrow> Split spec CHR ''-'' = [token0] \<Longrightarrow>
   cdn_range f h r = (Panics indexOutOfRange, r)"
  by (simp add: cdn_range_def index_def)

lemma cdn_GET_range:
  assumes "CDNFiles (store r) (TrimPrefix (Path (req r)) ''/@cdn'') = Some f"
    and "Header_Get (Header (req r)) ''Range'' = h" and "h \<noteq> []"
  shows "cdn_GET r = cdn_range f h r"
  using assms by (simp add: cdn_GET_def)

lemma cdn_GET_full:
  assumes "CDNFiles (store r) (TrimPrefix (Path (req r)) ''/@cdn'') = Some f"
    and "Header_Get (Header (req r)) ''Range'' = []"
  shows "cdn_GET r = cdn_send f (CDNFile.Size f) (Contents f) (r\<lparr>status := 200\<rparr>)"
  using assms by (simp add: cdn_GET_def)

text \<open>The response to a GET on the CDN route, for each way the handler can end.\<close>

lemma cdn_response_sliced:
  assumes "Method rq = ''GET''"
    and "CDNFiles s (TrimPrefix (Path rq) ''/@cdn'') = Some f"
    and "Split (Header_Get (Header rq) ''Range'') CHR ''='' = u # spec # others"
    and "Split spec CHR ''-'' = token0 # token1 # rest"
    and "start = (case ParseInt token0 of Some v \<Rightarrow> v | None \<Rightarrow> 0)"
    and "end = (case ParseInt token1 of Some v \<Rightarrow> v | None \<Rightarrow> CDNFile.Size f - 1)"
    and "slice (Contents f) start (end + 1) = Some d"
  shows "handler s (cdn_route D) emptyWriter rq =
     \<lparr>wr = \<lparr>headers = cdn_headers f (end + 1 - start)
                [(''Content-Range'', [''bytes '' @ FormatInt (sint start) @ ''-'' @
                    FormatInt (sint end) @ ''/'' @ FormatInt (sint (CDNFile.Size f))])],
             sent = Some (206, cdn_headers f (end + 1 - start)
                [(''Content-Range'', [''bytes '' @ FormatInt (sint start) @ ''-'' @
                    FormatInt (sint end) @ ''/'' @ FormatInt (sint (CDNFile.Size f))])]),
             body = [Bytes (elems d)]\<rparr>,
       req = rq, store = s, status = 206, currentUser = None\<rparr>"
proof -
  let ?r = "\<lparr>wr = emptyWriter, req = rq, store = s, status = 0, currentUser = None\<rparr>"
  have ne: "Header_Get (Header rq) ''Range'' \<noteq> []"
    using assms(3) by auto
  have "cdn_GET ?r = cdn_range f (Header_Get (Header rq) ''Range'') ?r"
    using assms(2) ne by (intro cdn_GET_range) simp_all
  also have "\<dots> = cdn_send f (end + 1 - start) d
            (Header_set ''content-range''
               (''bytes '' @ FormatInt (sint start) @ ''-'' @ FormatInt (sint end) @
                ''/'' @ FormatInt (sint (CDNFile.Size f))) (?r\<lparr>status := 206\<rparr>))"
    using assms(7) unfolding assms(5,6) cdn_range_eq [OF assms(3,4)] by simp
  also have "\<dots> = (Returns (), \<lparr>wr = \<lparr>headers = cdn_headers f (end + 1 - start)
                [(''Content-Range'', [''bytes '' @ FormatInt (sint start) @ ''-'' @
                    FormatInt (sint end) @ ''/'' @ FormatInt (sint (CDNFile.Size f))])],
             sent = Some (206, cdn_headers f (end + 1 - start)
                [(''Content-Range'', [''bytes '' @ FormatInt (sint start) @ ''-'' @
                    FormatInt (sint end) @ ''/'' @ FormatInt (sint (CDNFile.Size f))])]),
             body = [Bytes (elems d)]\<rparr>,
       req = rq, store = s, status = 206, currentUser = None\<rparr>)"
    by (subst cdn_send_eq)
       (simp_all add: Header_set_def Header_Set_def emptyWriter_def canonical_keys)
  finally have "cdn_route D ?r = (Returns (), \<lparr>wr = \<lparr>headers = cdn_headers f (end + 1 - start)
                [(''Content-Range'', [''bytes '' @ FormatInt (sint start) @ ''-'' @
                    FormatInt (sint end) @ ''/'' @ FormatInt (sint (CDNFile.Size f))])],
             sent = Some (206, cdn_headers f (end + 1 - start)
                [(''Content-Range'', [''bytes '' @ FormatInt (sint start) @ ''-'' @
                    FormatInt (sint end) @ ''/'' @ FormatInt (sint (CDNFile.Size f))])]),
             body = [Bytes (elems d)]\<rparr>,
       req = rq, store = s, status = 206, currentUser = None\<rparr>)"
    using assms(1) by (simp add: cdn_route_def RespondTo_GET)
  then show ?thesis by (rule handler_Returns)
qed

lemma cdnRequest_simps:
  "Method (cdnRequest h) = ''GET''"
  "CDNFiles exampleStore (TrimPrefix (Path (cdnRequest h)) ''/@cdn'') = Some exampleFile"
  "Header_Get (Header (cdnRequest h)) ''Range'' = h"
  by (simp_all add: cdnRequest_def exampleStore_def TrimPrefix_def Header_Get_def canonical_keys)

lemma exampleFile_simps:
  "CDNFile.Size exampleFile = 10" "CDNFile.Filename exampleFile = ''game.zip''"
  "Contents exampleFile = \<lparr>elems = [10, 11, 12, 13, 14, 15, 16, 17, 18, 19], spare = []\<rparr>"
  by (simp_all add: exampleFile_def)

lemmas ParseInt_eval = ParseInt_def ParseUint_def digitVal_def
lemmas FormatInt_eval = FormatInt_def digitsOf.simps

lemma map_of_cdn_headers:
  "map_of (cdn_headers f cl h) k =
     (if k = ''Connection'' then Some [''close'']
      else if k = ''Content-Disposition''
        then Some [''attachment; filename='' @ Quote (CDNFile.Filename f)]
      else if k = ''Content-Type'' then Some [''application/octet-stream'']
      else if k = ''Accept-Range'' then Some [''bytes'']
      else if k = ''Content-Length'' then Some [FormatInt (sint cl)]
      else map_of h k)"
  by (simp add: cdn_headers_def map_of_Header_Set canonical_keys)

lemma cdn_response_fault:
  assumes "Method rq = ''GET''"
    and "CDNFiles s (TrimPrefix (Path rq) ''/@cdn'') = Some f"
    and "Header_Get (Header rq) ''Range'' \<noteq> []"
    and "cdn_range f (Header_Get (Header rq) ''Range'')
           \<lparr>wr = emptyWriter, req = rq, store = s, status = 0, currentUser = None\<rparr> =
         (Panics (ErrOther text),
          \<lparr>wr = emptyWriter, req = rq, store = s, status = 0, currentUser = None\<rparr>)"
  shows "handler s (cdn_route D) emptyWriter rq =
     WriteError 500 [''internal error: '' @ text]
       \<lparr>wr = emptyWriter, req = rq, store = s, status = 0, currentUser = None\<rparr>"
proof -
  let ?r = "\<lparr>wr = emptyWriter, req = rq, store = s, status = 0, currentUser = None\<rparr>"
  have "cdn_GET ?r = cdn_range f (Header_Get (Header rq) ''Range'') ?r"
    using assms(2,3) by (intro cdn_GET_range) simp_all
  then have "cdn_route D ?r = (Panics (ErrOther text), ?r)"
    using assms(1,4) by (simp add: cdn_route_def RespondTo_GET)
  then show ?thesis
    by (simp add: handler_Panics)
qed

lemma fault_response:
  "respStatus (WriteError 500 msgs
      \<lparr>wr = emptyWriter, req = rq, store = s, status = 0, currentUser = None\<rparr>) = Some 500"
  "respHeader (WriteError 500 msgs
      \<lparr>wr = emptyWriter, req = rq, store = s, status = 0, currentUser = None\<rparr>) key = None"
  "respBody (WriteError 500 msgs
      \<lparr>wr = emptyWriter, req = rq, store = s, status = 0, currentUser = None\<rparr>) =
     [JSON (VMap [(''errors'', variadic msgs)])]"
  by (simp_all add: respStatus_WriteError respHeader_WriteError respBody_WriteError emptyWriter_def)

lemma cdn_response_full:
  assumes "Method rq = ''GET''"
    and "CDNFiles s (TrimPrefix (Path rq) ''/@cdn'') = Some f"
    and "Header_Get (Header rq) ''Range'' = []"
  shows "handler s (cdn_route D) emptyWriter rq =
     \<lparr>wr = \<lparr>headers = cdn_headers f (CDNFile.Size f) [],
             sent = Some (200, cdn_headers f (CDNFile.Size f) []),
             body = [Bytes (elems (Contents f))]\<rparr>,
       req = rq, store = s, status = 200, currentUser = None\<rparr>"
proof -
  let ?r = "\<lparr>wr = emptyWriter, req = rq, store = s, status = 0, currentUser = None\<rparr>"
  have "cdn_GET ?r = cdn_send f (CDNFile.Size f) (Contents f) (?r\<lparr>status := 200\<rparr>)"
    using assms(2,3) by (intro cdn_GET_full) simp_all
  also have "\<dots> = (Returns (), \<lparr>wr = \<lparr>headers = cdn_headers f (CDNFile.Size f) [],
             sent = Some (200, cdn_headers f (CDNFile.Size f) []),
             body = [Bytes (elems (Contents f))]\<rparr>,
       req = rq, store = s, status = 200, currentUser = None\<rparr>)"
    by (subst cdn_send_eq) (simp_all add: emptyWriter_def)
  finally have "cdn_route D ?r = (Returns (), \<lparr>wr = \<lparr>headers = cdn_headers f (CDNFile.Size f) [],
             sent = Some (200, cdn_headers f (CDNFile.Size f) []),
             body = [Bytes (elems (Contents f))]\<rparr>,
       req = rq, store = s, status = 200, currentUser = None\<rparr>)"
    using assms(1) by (simp add: cdn_route_def RespondTo_GET)
  then show ?thesis by (rule handler_Returns)
qed

lemmas context_defs = andThen_def CheckAPIKey_def Int64Var_def Var_def FindGame_def FindUpload_def
  FindBuild_def AssertAuthorization_def predicate_def Throw_def Store_FindGame_def

lemma respStatus_WriteJSON:
  "sent (wr r) = None \<Longrightarrow> status r = 0 \<Longrightarrow> respStatus (WriteJSON payload r) = Some 200"
  by (simp add: respStatus_def WriteJSON_def WriteHeader_def Write_def)

lemma cdn_route_no_spec:
  "cdn_route exampleDeps
     \<lparr>wr = emptyWriter, req = cdnRequest ''bytes'', store = exampleStore, status = 0,
       currentUser = None\<rparr> =
   (Panics (ErrOther ''runtime error: index out of range''),
    \<lparr>wr = emptyWriter, req = cdnRequest ''bytes'', store = exampleStore, status = 0,
      currentUser = None\<rparr>)"
proof -
  let ?r = "\<lparr>wr = emptyWriter, req = cdnRequest ''bytes'', store = exampleStore, status = 0,
      currentUser = None\<rparr>"
  have "cdn_GET ?r = cdn_range exampleFile ''bytes'' ?r"
    by (rule cdn_GET_range) (simp_all add: cdnRequest_simps)
  moreover have "Split ''bytes'' CHR ''='' = [''bytes'']"
    by simp
  ultimately show ?thesis
    by (simp add: cdn_route_def RespondTo_GET cdnRequest_simps cdn_range_no_spec
        indexOutOfRange_def)
qed

lemma apiRequest_simps:
  "Method (apiRequest path vars) = ''GET''"
  "apiKeyUser exampleDeps (apiRequest path vars) = Some exampleUser"
  "routeVar (apiRequest path vars) name = (case map_of vars name of None \<Rightarrow> [] | Some v \<Rightarrow> v)"
  by (simp_all add: apiRequest_def exampleDeps_def routeVar_def)

lemma games_absent_game:
  assumes "Method rq = ''GET''"
    and "apiKeyUser D rq = Some user"
    and "ParseInt (routeVar rq ''id'') = Some gameID"
    and "Games s gameID = None"
  shows "respStatus (handler s (games_route D) emptyWriter rq) = Some 404"
proof -
  let ?r = "\<lparr>wr = emptyWriter, req = rq, store = s, status = 0, currentUser = None\<rparr>"
  have "games_route D ?r = (Panics (ErrAPI 404 [''not found'']),
      \<lparr>wr = emptyWriter, req = rq, store = s, status = 0, currentUser = Some user\<rparr>)"
    using assms
    by (simp add: games_route_def RespondTo_GET games_GET_def context_defs)
  then show ?thesis
    by (simp add: handler_Panics respStatus_WriteError emptyWriter_def)
qed

lemma example_lookups:
  "Uploads exampleStore 3 = Some exampleUpload"
  "Builds exampleStore 5 = Some exampleBuild"
  "UploadID exampleBuild = 3" "Head exampleUpload = 5" "Storage exampleUpload = ''build''"
  "GetFile exampleBuild typ subtype = None"
  "CanBeDownloadedBy exampleDeps upload user = Some True"
  by (simp_all add: exampleStore_def exampleBuild_def exampleUpload_def GetFile_def exampleDeps_def)

text \<open>The response when the bounds, parsed or defaulted, lie inside the contents.\<close>

lemma cdn_response_in_bounds:
  assumes "Method rq = ''GET''"
    and "CDNFiles s (TrimPrefix (Path rq) ''/@cdn'') = Some f"
    and "Split (Header_Get (Header rq) ''Range'') CHR ''='' = u # spec # others"
    and "Split spec CHR ''-'' = token0 # token1 # rest"
    and "start = (case ParseInt token0 of None \<Rightarrow> 0 | Some v \<Rightarrow> v)"
    and "end = (case ParseInt token1 of None \<Rightarrow> CDNFile.Size f - 1 | Some v \<Rightarrow> v)"
    and "0 \<le> sint start" and "sint start \<le> sint (end + 1)"
    and "sint (end + 1) \<le> int (cap (Contents f))"
  shows "respStatus (handler s (cdn_route D) emptyWriter rq) = Some 206
    \<and> respHeader (handler s (cdn_route D) emptyWriter rq) ''Content-Range'' =
        Some [''bytes '' @ FormatInt (sint start) @ ''-'' @ FormatInt (sint end) @ ''/'' @
              FormatInt (sint (CDNFile.Size f))]
    \<and> respBody (handler s (cdn_route D) emptyWriter rq) =
        [Bytes (take (nat (sint (end + 1) - sint start))
                  (drop (nat (sint start)) (elems (Contents f) @ spare (Contents f))))]"
proof -
  define d where "d = \<lparr>elems = take (nat (sint (end + 1) - sint start))
                            (drop (nat (sint start)) (elems (Contents f) @ spare (Contents f))),
                       spare = drop (nat (sint (end + 1))) (elems (Contents f) @ spare (Contents f))\<rparr>"
  have sl: "slice (Contents f) start (end + 1) = Some d"
    using assms(7-9) by (simp add: slice_def d_def Let_def)
  have start: "start = (case ParseInt token0 of Some v \<Rightarrow> v | None \<Rightarrow> 0)"
    using assms(5) by (simp split: option.splits)
  have "end": "end = (case ParseInt token1 of Some v \<Rightarrow> v | None \<Rightarrow> CDNFile.Size f - 1)"
    using assms(6) by (simp split: option.splits)
  show ?thesis
    unfolding cdn_response_sliced [OF assms(1-4) start "end" sl]
    by (simp add: respStatus_def respHeader_def respBody_def map_of_cdn_headers canonical_keys
        d_def)
qed

section \<open>The CDN route\<close>

text \<open>
  C3. A GET on the CDN route that resolves to a stored CDNFile \<open>f\<close> of size \<open>S\<close> (its
  \<open>Size\<close>, which is the number of bytes of its \<open>Contents\<close>), with a Range header whose text
  after the "=" holds a start token and an end token around a "-", both parseable, to
  \<open>start\<close> and \<open>end\<close> with \<open>start \<le> end < S\<close>: the status is 206, the header Content-Range
  is "bytes start-end/S", the header Content-Length is \<open>end - start + 1\<close>, and the body is
  the bytes of the file from index \<open>start\<close> to index \<open>end\<close>, both included.
\<close>

theorem cdn_range_request:
  assumes "Method rq = ''GET''"
    and "CDNFiles s (TrimPrefix (Path rq) ''/@cdn'') = Some f"
    and "sint (CDNFile.Size f) = int (length (elems (Contents f)))"
    and "Split (Header_Get (Header rq) ''Range'') CHR ''='' = u # spec # others"
    and "Split spec CHR ''-'' = token0 # token1 # rest"
    and "ParseInt token0 = Some start"
    and "ParseInt token1 = Some end"
    and "sint start \<le> sint end"
    and "sint end < sint (CDNFile.Size f)"
  shows "respStatus (handler s (cdn_route D) emptyWriter rq) = Some 206
    \<and> respHeader (handler s (cdn_route D) emptyWriter rq) ''Content-Range'' =
        Some [''bytes '' @ FormatInt (sint start) @ ''-'' @ FormatInt (sint end) @ ''/'' @
              FormatInt (sint (CDNFile.Size f))]
    \<and> respHeader (handler s (cdn_route D) emptyWriter rq) ''Content-Length'' =
        Some [FormatInt (sint end - sint start + 1)]
    \<and> respBody (handler s (cdn_route D) emptyWriter rq) =
        [Bytes (take (nat (sint end - sint start + 1))
                  (drop (nat (sint start)) (elems (Contents f))))]"
proof -
  have "token0 \<in> set (Split spec CHR ''-'')"
    using assms(5) by simp
  then have "CHR ''-'' \<notin> set token0"
    by (rule Split_no_sep)
  with assms(6) have start0: "0 \<le> sint start"
    by (rule ParseInt_nonneg)
  have end1: "sint (end + 1) = sint end + 1"
    using assms(9) by (rule sint_succ)
  have len: "sint (end + 1 - start) = sint end - sint start + 1"
    using sint_diff [of start "end + 1"] start0 assms(8) end1 by simp
  define d where "d = \<lparr>elems = take (nat (sint end - sint start + 1))
                            (drop (nat (sint start)) (elems (Contents f))),
                       spare = drop (nat (sint end + 1)) (elems (Contents f) @ spare (Contents f))\<rparr>"
  have "nat (sint start) + nat (sint end - sint start + 1) \<le> length (elems (Contents f))"
    using start0 assms(3,8,9) by linarith
  then have "take (nat (sint end - sint start + 1))
               (drop (nat (sint start)) (elems (Contents f) @ spare (Contents f))) =
             take (nat (sint end - sint start + 1)) (drop (nat (sint start)) (elems (Contents f)))"
    by simp
  then have sl: "slice (Contents f) start (end + 1) = Some d"
    using start0 assms(3,8,9) end1
    by (simp add: slice_def cap_def d_def Let_def algebra_simps)
  have R: "handler s (cdn_route D) emptyWriter rq =
     \<lparr>wr = \<lparr>headers = cdn_headers f (end + 1 - start)
                [(''Content-Range'', [''bytes '' @ FormatInt (sint start) @ ''-'' @
                    FormatInt (sint end) @ ''/'' @ FormatInt (sint (CDNFile.Size f))])],
             sent = Some (206, cdn_headers f (end + 1 - start)
                [(''Content-Range'', [''bytes '' @ FormatInt (sint start) @ ''-'' @
                    FormatInt (sint end) @ ''/'' @ FormatInt (sint (CDNFile.Size f))])]),
             body = [Bytes (elems d)]\<rparr>,
       req = rq, store = s, status = 206, currentUser = None\<rparr>"
    using assms(1,2,4,5) _ _ sl
    by (rule cdn_response_sliced) (simp_all add: assms(6,7))
  show ?thesis
    unfolding R
    by (simp add: respStatus_def respHeader_def respBody_def map_of_cdn_headers canonical_keys
        len d_def)
qed

theorem cdn_range_request_witness:
  "respStatus (handler exampleStore (cdn_route exampleDeps) emptyWriter (cdnRequest ''bytes=2-5''))
     = Some 206
   \<and> respHeader (handler exampleStore (cdn_route exampleDeps) emptyWriter (cdnRequest ''bytes=2-5''))
       ''Content-Range'' = Some [''bytes 2-5/10'']
   \<and> respHeader (handler exampleStore (cdn_route exampleDeps) emptyWriter (cdnRequest ''bytes=2-5''))
       ''Content-Length'' = Some [''4'']
   \<and> respBody (handler exampleStore (cdn_route exampleDeps) emptyWriter (cdnRequest ''bytes=2-5''))
       = [Bytes [12, 13, 14, 15]]"
proof -
  have 1: "Split (Header_Get (Header (cdnRequest ''bytes=2-5'')) ''Range'') CHR ''='' =
           ''bytes'' # ''2-5'' # []"
    by (simp add: cdnRequest_simps)
  have 2: "Split ''2-5'' CHR ''-'' = ''2'' # ''5'' # []"
    by simp
  have 3: "ParseInt ''2'' = Some 2" "ParseInt ''5'' = Some 5"
    by (simp_all add: ParseInt_eval)
  have 4: "sint (CDNFile.Size exampleFile) = int (length (elems (Contents exampleFile)))"
    by (simp add: exampleFile_simps)
  have 5: "sint (2 :: int64) \<le> sint (5 :: int64)" "sint (5 :: int64) < sint (CDNFile.Size exampleFile)"
    by (simp_all add: exampleFile_simps)
  show ?thesis
    using cdn_range_request [OF cdnRequest_simps(1,2) 4 1 2 3 5, of exampleDeps]
    by (simp add: exampleFile_simps FormatInt_eval)
qed

text \<open>
  C4 (as amended). A GET on the CDN route that resolves to a stored CDNFile of size \<open>S\<close>
  (its \<open>Size\<close>, which is the number of bytes of its \<open>Contents\<close>), with a Range header that is
  not empty. The range text is the piece of the header between its first "=" and its next
  "=" (or its end). When the header holds an "=" and the range text holds a "-", the start
  token is the range text before its first "-" and the end token is the piece between that
  "-" and the next "-" (or the end of the range text); a start token that is empty or does
  not parse counts as 0, and an end token that is empty or does not parse counts as
  \<open>S - 1\<close>, and with \<open>start \<le> stop < S\<close> for the values \<open>start\<close> and \<open>stop\<close> so obtained
  the response is the 206 for the bytes from \<open>start\<close> to \<open>stop\<close>. When the header holds no "=", or the range
  text holds no "-", there is no end token and the response is a 500.
\<close>

theorem cdn_range_defaults:
  assumes "Method rq = ''GET''"
    and "CDNFiles s (TrimPrefix (Path rq) ''/@cdn'') = Some f"
    and "Header_Get (Header rq) ''Range'' \<noteq> []"
  shows "(Split (Header_Get (Header rq) ''Range'') CHR ''='' = u # spec # others
          \<and> Split spec CHR ''-'' = token0 # token1 # rest
          \<and> start = (case ParseInt token0 of None \<Rightarrow> 0 | Some v \<Rightarrow> v)
          \<and> stop = (case ParseInt token1 of None \<Rightarrow> CDNFile.Size f - 1 | Some v \<Rightarrow> v)
          \<and> sint (CDNFile.Size f) = int (length (elems (Contents f)))
          \<and> sint start \<le> sint stop \<and> sint stop < sint (CDNFile.Size f)
          \<longrightarrow> respStatus (handler s (cdn_route D) emptyWriter rq) = Some 206
            \<and> respHeader (handler s (cdn_route D) emptyWriter rq) ''Content-Range'' =
                Some [''bytes '' @ FormatInt (sint start) @ ''-'' @ FormatInt (sint stop) @ ''/'' @
                      FormatInt (sint (CDNFile.Size f))]
            \<and> respBody (handler s (cdn_route D) emptyWriter rq) =
                [Bytes (take (nat (sint stop - sint start + 1))
                          (drop (nat (sint start)) (elems (Contents f))))])
    \<and> (Split (Header_Get (Header rq) ''Range'') CHR ''='' = [whole]
          \<longrightarrow> respStatus (handler s (cdn_route D) emptyWriter rq) = Some 500)
    \<and> (Split (Header_Get (Header rq) ''Range'') CHR ''='' = unit # rangeText # further
          \<and> Split rangeText CHR ''-'' = [only]
          \<longrightarrow> respStatus (handler s (cdn_route D) emptyWriter rq) = Some 500)"
proof (intro conjI impI)
  assume a: "Split (Header_Get (Header rq) ''Range'') CHR ''='' = u # spec # others
          \<and> Split spec CHR ''-'' = token0 # token1 # rest
          \<and> start = (case ParseInt token0 of None \<Rightarrow> 0 | Some v \<Rightarrow> v)
          \<and> stop = (case ParseInt token1 of None \<Rightarrow> CDNFile.Size f - 1 | Some v \<Rightarrow> v)
          \<and> sint (CDNFile.Size f) = int (length (elems (Contents f)))
          \<and> sint start \<le> sint stop \<and> sint stop < sint (CDNFile.Size f)"
  then have tokens: "Split (Header_Get (Header rq) ''Range'') CHR ''='' = u # spec # others"
      "Split spec CHR ''-'' = token0 # token1 # rest"
    and start: "start = (case ParseInt token0 of None \<Rightarrow> 0 | Some v \<Rightarrow> v)"
    and stop: "stop = (case ParseInt token1 of None \<Rightarrow> CDNFile.Size f - 1 | Some v \<Rightarrow> v)"
    and size: "sint (CDNFile.Size f) = int (length (elems (Contents f)))"
    and le: "sint start \<le> sint stop" and lt: "sint stop < sint (CDNFile.Size f)"
    by blast+
  have "token0 \<in> set (Split spec CHR ''-'')"
    using tokens(2) by simp
  then have "CHR ''-'' \<notin> set token0"
    by (rule Split_no_sep)
  then have start0: "0 \<le> sint start"
    unfolding start by (cases "ParseInt token0") (simp_all add: ParseInt_nonneg)
  have end1: "sint (stop + 1) = sint stop + 1"
    using lt by (rule sint_succ)
  have within: "nat (sint start) + nat (sint stop - sint start + 1) \<le> length (elems (Contents f))"
    using start0 size le lt by linarith
  have bounds: "0 \<le> sint start" "sint start \<le> sint (stop + 1)"
    "sint (stop + 1) \<le> int (cap (Contents f))"
    using start0 le lt size end1 by (simp_all add: cap_def)
  have sliced: "take (nat (sint (stop + 1) - sint start))
                  (drop (nat (sint start)) (elems (Contents f) @ spare (Contents f))) =
                take (nat (sint stop - sint start + 1)) (drop (nat (sint start)) (elems (Contents f)))"
    unfolding end1 using within by (simp add: add_diff_eq diff_add_eq)
  note response = cdn_response_in_bounds [OF assms(1,2) tokens start stop bounds, of D,
      unfolded sliced]
  from response show "respStatus (handler s (cdn_route D) emptyWriter rq) = Some 206"
    and "respHeader (handler s (cdn_route D) emptyWriter rq) ''Content-Range'' =
                Some [''bytes '' @ FormatInt (sint start) @ ''-'' @ FormatInt (sint stop) @ ''/'' @
                      FormatInt (sint (CDNFile.Size f))]"
    and "respBody (handler s (cdn_route D) emptyWriter rq) =
                [Bytes (take (nat (sint stop - sint start + 1))
                          (drop (nat (sint start)) (elems (Contents f))))]"
    by blast+
next
  let ?r = "\<lparr>wr = emptyWriter, req = rq, store = s, status = 0, currentUser = None\<rparr>"
  assume "Split (Header_Get (Header rq) ''Range'') CHR ''='' = [whole]"
  then have "cdn_range f (Header_Get (Header rq) ''Range'') ?r =
      (Panics (ErrOther ''runtime error: index out of range''), ?r)"
    by (simp add: cdn_range_no_spec indexOutOfRange_def)
  from cdn_response_fault [OF assms this, of D]
  show "respStatus (handler s (cdn_route D) emptyWriter rq) = Some 500"
    by (simp add: fault_response)
next
  let ?r = "\<lparr>wr = emptyWriter, req = rq, store = s, status = 0, currentUser = None\<rparr>"
  assume "Split (Header_Get (Header rq) ''Range'') CHR ''='' = unit # rangeText # further
          \<and> Split rangeText CHR ''-'' = [only]"
  then have "cdn_range f (Header_Get (Header rq) ''Range'') ?r =
      (Panics (ErrOther ''runtime error: index out of range''), ?r)"
    by (simp add: cdn_range_no_end indexOutOfRange_def)
  from cdn_response_fault [OF assms this, of D]
  show "respStatus (handler s (cdn_route D) emptyWriter rq) = Some 500"
    by (simp add: fault_response)
qed

theorem cdn_range_defaults_witness:
  "respStatus (handler exampleStore (cdn_route exampleDeps) emptyWriter (cdnRequest ''bytes=-3''))
     = Some 206
   \<and> respHeader (handler exampleStore (cdn_route exampleDeps) emptyWriter (cdnRequest ''bytes=-3''))
       ''Content-Range'' = Some [''bytes 0-3/10'']
   \<and> respBody (handler exampleStore (cdn_route exampleDeps) emptyWriter (cdnRequest ''bytes=-3''))
       = [Bytes [10, 11, 12, 13]]
   \<and> respStatus (handler exampleStore (cdn_route exampleDeps) emptyWriter (cdnRequest ''bytes=6-x''))
     = Some 206
   \<and> respHeader (handler exampleStore (cdn_route exampleDeps) emptyWriter (cdnRequest ''bytes=6-x''))
       ''Content-Range'' = Some [''bytes 6-9/10'']
   \<and> respBody (handler exampleStore (cdn_route exampleDeps) emptyWriter (cdnRequest ''bytes=6-x''))
       = [Bytes [16, 17, 18, 19]]
   \<and> respHeader (handler exampleStore (cdn_route exampleDeps) emptyWriter
        (cdnRequest ''bytes=2-5-7'')) ''Content-Range'' = Some [''bytes 2-5/10'']
   \<and> respBody (handler exampleStore (cdn_route exampleDeps) emptyWriter
        (cdnRequest ''bytes=2-5-7'')) = [Bytes [12, 13, 14, 15]]
   \<and> respStatus (handler exampleStore (cdn_route exampleDeps) emptyWriter (cdnRequest ''bytes''))
     = Some 500
   \<and> respStatus (handler exampleStore (cdn_route exampleDeps) emptyWriter
        (cdnRequest ''bytes=x=2-5'')) = Some 500"
proof -
  have ne: "Header_Get (Header (cdnRequest ''bytes=-3'')) ''Range'' \<noteq> []"
    "Header_Get (Header (cdnRequest ''bytes=6-x'')) ''Range'' \<noteq> []"
    "Header_Get (Header (cdnRequest ''bytes=2-5-7'')) ''Range'' \<noteq> []"
    "Header_Get (Header (cdnRequest ''bytes'')) ''Range'' \<noteq> []"
    "Header_Get (Header (cdnRequest ''bytes=x=2-5'')) ''Range'' \<noteq> []"
    by (simp_all add: cdnRequest_simps)
  have parse: "ParseInt [] = None" "ParseInt ''x'' = None" "ParseInt ''2'' = Some 2"
    "ParseInt ''3'' = Some 3" "ParseInt ''5'' = Some 5" "ParseInt ''6'' = Some 6"
    by (simp_all add: ParseInt_eval)
  have a: "respStatus (handler exampleStore (cdn_route exampleDeps) emptyWriter
             (cdnRequest ''bytes=-3'')) = Some 206
     \<and> respHeader (handler exampleStore (cdn_route exampleDeps) emptyWriter
             (cdnRequest ''bytes=-3'')) ''Content-Range'' = Some [''bytes 0-3/10'']
     \<and> respBody (handler exampleStore (cdn_route exampleDeps) emptyWriter
             (cdnRequest ''bytes=-3'')) = [Bytes [10, 11, 12, 13]]"
    using cdn_range_defaults [OF cdnRequest_simps(1,2) ne(1),
        where u = "''bytes''" and spec = "''-3''" and others = "[]" and ?token0.0 = "[]"
          and ?token1.0 = "''3''" and rest = "[]" and start = 0 and stop = 3
          and D = exampleDeps]
    by (simp add: cdnRequest_simps parse exampleFile_simps FormatInt_eval)
  have b: "respStatus (handler exampleStore (cdn_route exampleDeps) emptyWriter
             (cdnRequest ''bytes=6-x'')) = Some 206
     \<and> respHeader (handler exampleStore (cdn_route exampleDeps) emptyWriter
             (cdnRequest ''bytes=6-x'')) ''Content-Range'' = Some [''bytes 6-9/10'']
     \<and> respBody (handler exampleStore (cdn_route exampleDeps) emptyWriter
             (cdnRequest ''bytes=6-x'')) = [Bytes [16, 17, 18, 19]]"
    using cdn_range_defaults [OF cdnRequest_simps(1,2) ne(2),
        where u = "''bytes''" and spec = "''6-x''" and others = "[]" and ?token0.0 = "''6''"
          and ?token1.0 = "''x''" and rest = "[]" and start = 6 and stop = 9
          and D = exampleDeps]
    by (simp add: cdnRequest_simps parse exampleFile_simps FormatInt_eval)
  have c: "respHeader (handler exampleStore (cdn_route exampleDeps) emptyWriter
             (cdnRequest ''bytes=2-5-7'')) ''Content-Range'' = Some [''bytes 2-5/10'']
     \<and> respBody (handler exampleStore (cdn_route exampleDeps) emptyWriter
             (cdnRequest ''bytes=2-5-7'')) = [Bytes [12, 13, 14, 15]]"
    using cdn_range_defaults [OF cdnRequest_simps(1,2) ne(3),
        where u = "''bytes''" and spec = "''2-5-7''" and others = "[]" and ?token0.0 = "''2''"
          and ?token1.0 = "''5''" and rest = "[''7'']" and start = 2 and stop = 5
          and D = exampleDeps]
    by (simp add: cdnRequest_simps parse exampleFile_simps FormatInt_eval)
  have d: "respStatus (handler exampleStore (cdn_route exampleDeps) emptyWriter
             (cdnRequest ''bytes'')) = Some 500"
    using cdn_range_defaults [OF cdnRequest_simps(1,2) ne(4),
        where whole = "''bytes''" and D = exampleDeps]
    by (simp add: cdnRequest_simps)
  have e: "respStatus (handler exampleStore (cdn_route exampleDeps) emptyWriter
             (cdnRequest ''bytes=x=2-5'')) = Some 500"
    using cdn_range_defaults [OF cdnRequest_simps(1,2) ne(5),
        where unit = "''bytes''" and rangeText = "''x''" and further = "[''2-5'']"
          and only = "''x''" and D = exampleDeps]
    by (simp add: cdnRequest_simps)
  from a b c d e show ?thesis by simp
qed

theorem cdn_range_no_end_token:
  "respStatus (handler exampleStore (cdn_route exampleDeps) emptyWriter (cdnRequest ''bytes=5''))
     = Some 500
   \<and> respHeader (handler exampleStore (cdn_route exampleDeps) emptyWriter (cdnRequest ''bytes=5''))
       ''Content-Range'' = None"
proof -
  have 1: "Header_Get (Header (cdnRequest ''bytes=5'')) ''Range'' \<noteq> []"
    by (simp add: cdnRequest_simps)
  have "Split ''bytes=5'' CHR ''='' = ''bytes'' # ''5'' # []" "Split ''5'' CHR ''-'' = [''5'']"
    by simp_all
  then have 2: "cdn_range exampleFile (Header_Get (Header (cdnRequest ''bytes=5'')) ''Range'')
      \<lparr>wr = emptyWriter, req = cdnRequest ''bytes=5'', store = exampleStore, status = 0,
        currentUser = None\<rparr> =
     (Panics (ErrOther ''runtime error: index out of range''),
      \<lparr>wr = emptyWriter, req = cdnRequest ''bytes=5'', store = exampleStore, status = 0,
        currentUser = None\<rparr>)"
    unfolding cdnRequest_simps by (simp add: cdn_range_no_end indexOutOfRange_def)
  show ?thesis
    unfolding cdn_response_fault [OF cdnRequest_simps(1,2) 1 2]
    by (simp add: fault_response)
qed

text \<open>
  C5. A Range header whose bounds do not satisfy \<open>start \<le> end < S\<close> is to be answered 500.
  The handler checks nothing itself: it leaves the check to the slice expression
  \<^verbatim>\<open>data[start : end+1]\<close>, which accepts \<open>start = end + 1\<close>. Here the example file of ten
  bytes and the header "bytes=5-4": both tokens parse, \<open>start \<le> end\<close> fails, and the
  response is a 206 with Content-Range "bytes 5-4/10" and an empty body.
\<close>

theorem cdn_range_empty_served:
  "ParseInt ''5'' = Some 5 \<and> ParseInt ''4'' = Some 4 \<and> \<not> sint (5 :: int64) \<le> sint (4 :: int64)
   \<and> respStatus (handler exampleStore (cdn_route exampleDeps) emptyWriter (cdnRequest ''bytes=5-4''))
     = Some 206
   \<and> respHeader (handler exampleStore (cdn_route exampleDeps) emptyWriter (cdnRequest ''bytes=5-4''))
       ''Content-Range'' = Some [''bytes 5-4/10'']
   \<and> respBody (handler exampleStore (cdn_route exampleDeps) emptyWriter (cdnRequest ''bytes=5-4''))
       = [Bytes []]"
proof -
  have a1: "Split (Header_Get (Header (cdnRequest ''bytes=5-4'')) ''Range'') CHR ''='' =
           ''bytes'' # ''5-4'' # []"
    by (simp add: cdnRequest_simps)
  have a2: "Split ''5-4'' CHR ''-'' = ''5'' # ''4'' # []"
    by simp
  have p: "ParseInt ''5'' = Some 5" "ParseInt ''4'' = Some 4"
    by (simp_all add: ParseInt_eval)
  have a3: "(5 :: int64) = (case ParseInt ''5'' of Some v \<Rightarrow> v | None \<Rightarrow> 0)"
    "(4 :: int64) = (case ParseInt ''4'' of Some v \<Rightarrow> v | None \<Rightarrow> CDNFile.Size exampleFile - 1)"
    by (simp_all add: p)
  have a4: "slice (Contents exampleFile) 5 (4 + 1) = Some \<lparr>elems = [], spare = [15, 16, 17, 18, 19]\<rparr>"
    by (simp add: slice_def cap_def exampleFile_simps)
  show ?thesis
    unfolding cdn_response_sliced [OF cdnRequest_simps(1,2) a1 a2 a3 a4]
    by (simp add: p respStatus_def respHeader_def respBody_def map_of_cdn_headers canonical_keys
        exampleFile_simps FormatInt_eval)
qed

text \<open>
  The status for every Range header that has both tokens: 206 when the slice expression
  accepts the bounds, 500 (through the wrapper) when it panics.
\<close>

lemma cdn_range_status:
  assumes "Method rq = ''GET''"
    and "CDNFiles s (TrimPrefix (Path rq) ''/@cdn'') = Some f"
    and "Split (Header_Get (Header rq) ''Range'') CHR ''='' = u # spec # others"
    and "Split spec CHR ''-'' = token0 # token1 # rest"
    and "start = (case ParseInt token0 of None \<Rightarrow> 0 | Some v \<Rightarrow> v)"
    and "end = (case ParseInt token1 of None \<Rightarrow> CDNFile.Size f - 1 | Some v \<Rightarrow> v)"
  shows "respStatus (handler s (cdn_route D) emptyWriter rq) =
     Some (if 0 \<le> sint start \<and> sint start \<le> sint (end + 1)
              \<and> sint (end + 1) \<le> int (cap (Contents f))
           then 206 else 500)"
proof (cases "0 \<le> sint start \<and> sint start \<le> sint (end + 1)
              \<and> sint (end + 1) \<le> int (cap (Contents f))")
  case True
  then show ?thesis
    using cdn_response_in_bounds [OF assms, of D] by simp
next
  case False
  let ?r = "\<lparr>wr = emptyWriter, req = rq, store = s, status = 0, currentUser = None\<rparr>"
  have sl: "slice (Contents f) start (end + 1) = None"
    using False by (auto simp: slice_def Let_def)
  have ne: "Header_Get (Header rq) ''Range'' \<noteq> []"
    using assms(3) by auto
  have start: "(case ParseInt token0 of Some v \<Rightarrow> v | None \<Rightarrow> 0) = start"
    using assms(5) by (simp split: option.splits)
  have "end": "(case ParseInt token1 of Some v \<Rightarrow> v | None \<Rightarrow> CDNFile.Size f - 1) = end"
    using assms(6) by (simp split: option.splits)
  have "cdn_range f (Header_Get (Header rq) ''Range'') ?r =
          (Panics (ErrOther ''runtime error: slice bounds out of range''), ?r)"
    unfolding cdn_range_eq [OF assms(3,4)] start "end"
    by (simp add: sl sliceBoundsOutOfRange_def)
  from cdn_response_fault [OF assms(1,2) ne this] False show ?thesis
    by (simp add: fault_response)
qed

lemma cdn_range_status_examples:
  "respStatus (handler exampleStore (cdn_route exampleDeps) emptyWriter (cdnRequest ''bytes=5-10''))
     = Some 500
   \<and> respStatus (handler exampleStore (cdn_route exampleDeps) emptyWriter (cdnRequest ''bytes=7-3''))
     = Some 500"
proof -
  have a1: "Split (Header_Get (Header (cdnRequest ''bytes=5-10'')) ''Range'') CHR ''='' =
           ''bytes'' # ''5-10'' # []"
    by (simp add: cdnRequest_simps)
  have a2: "Split ''5-10'' CHR ''-'' = ''5'' # ''10'' # []"
    by simp
  have a3: "(5 :: int64) = (case ParseInt ''5'' of None \<Rightarrow> 0 | Some v \<Rightarrow> v)"
    "(10 :: int64) = (case ParseInt ''10'' of None \<Rightarrow> CDNFile.Size exampleFile - 1 | Some v \<Rightarrow> v)"
    by (simp_all add: ParseInt_eval)
  have b1: "Split (Header_Get (Header (cdnRequest ''bytes=7-3'')) ''Range'') CHR ''='' =
           ''bytes'' # ''7-3'' # []"
    by (simp add: cdnRequest_simps)
  have b2: "Split ''7-3'' CHR ''-'' = ''7'' # ''3'' # []"
    by simp
  have b3: "(7 :: int64) = (case ParseInt ''7'' of None \<Rightarrow> 0 | Some v \<Rightarrow> v)"
    "(3 :: int64) = (case ParseInt ''3'' of None \<Rightarrow> CDNFile.Size exampleFile - 1 | Some v \<Rightarrow> v)"
    by (simp_all add: ParseInt_eval)
  show ?thesis
    using cdn_range_status [OF cdnRequest_simps(1,2) a1 a2 a3, of exampleDeps]
      cdn_range_status [OF cdnRequest_simps(1,2) b1 b2 b3, of exampleDeps]
    by (simp add: exampleFile_simps cap_def)
qed

text \<open>
  C6. What an asset response carries, for the example file without a Range header (200)
  and with one (206): Content-Type, Content-Disposition with the quoted filename and
  Connection: close are sent, and so is a header Accept-Range, which is the name the
  handler sets (\<^verbatim>\<open>accept-range\<close>); no header Accept-Ranges is sent.
\<close>

theorem cdn_headers_sent:
  "respStatus (handler exampleStore (cdn_route exampleDeps) emptyWriter (cdnRequest [])) = Some 200
   \<and> respHeader (handler exampleStore (cdn_route exampleDeps) emptyWriter (cdnRequest []))
       ''Accept-Ranges'' = None
   \<and> respHeader (handler exampleStore (cdn_route exampleDeps) emptyWriter (cdnRequest []))
       ''Accept-Range'' = Some [''bytes'']
   \<and> respHeader (handler exampleStore (cdn_route exampleDeps) emptyWriter (cdnRequest []))
       ''Content-Type'' = Some [''application/octet-stream'']
   \<and> respHeader (handler exampleStore (cdn_route exampleDeps) emptyWriter (cdnRequest []))
       ''Content-Disposition'' = Some [''attachment; filename='' @ [CHR 0x22] @ ''game.zip'' @ [CHR 0x22]]
   \<and> respHeader (handler exampleStore (cdn_route exampleDeps) emptyWriter (cdnRequest []))
       ''Connection'' = Some [''close'']
   \<and> respStatus (handler exampleStore (cdn_route exampleDeps) emptyWriter (cdnRequest ''bytes=0-3''))
       = Some 206
   \<and> respHeader (handler exampleStore (cdn_route exampleDeps) emptyWriter (cdnRequest ''bytes=0-3''))
       ''Accept-Ranges'' = None"
proof -
  have a1: "Split (Header_Get (Header (cdnRequest ''bytes=0-3'')) ''Range'') CHR ''='' =
           ''bytes'' # ''0-3'' # []"
    by (simp add: cdnRequest_simps)
  have a2: "Split ''0-3'' CHR ''-'' = ''0'' # ''3'' # []"
    by simp
  have a3: "(0 :: int64) = (case ParseInt ''0'' of Some v \<Rightarrow> v | None \<Rightarrow> 0)"
    "(3 :: int64) = (case ParseInt ''3'' of Some v \<Rightarrow> v | None \<Rightarrow> CDNFile.Size exampleFile - 1)"
    by (simp_all add: ParseInt_eval)
  have a4: "slice (Contents exampleFile) 0 (3 + 1) =
      Some \<lparr>elems = [10, 11, 12, 13], spare = [14, 15, 16, 17, 18, 19]\<rparr>"
    by (simp add: slice_def cap_def exampleFile_simps)
  show ?thesis
    unfolding cdn_response_sliced [OF cdnRequest_simps(1,2) a1 a2 a3 a4]
      cdn_response_full [OF cdnRequest_simps]
    by (simp add: respStatus_def respHeader_def map_of_cdn_headers canonical_keys
        exampleFile_simps Quote_def quoteByte_def)
qed

lemma cdn_no_accept_ranges:
  assumes "Method rq = ''GET''"
    and "CDNFiles s (TrimPrefix (Path rq) ''/@cdn'') = Some f"
    and "respStatus (handler s (cdn_route D) emptyWriter rq) = Some 200
         \<or> respStatus (handler s (cdn_route D) emptyWriter rq) = Some 206"
  shows "respHeader (handler s (cdn_route D) emptyWriter rq) ''Accept-Ranges'' = None"
proof (cases "Header_Get (Header rq) ''Range'' = []")
  case True
  show ?thesis
    unfolding cdn_response_full [OF assms(1,2) True]
    by (simp add: respHeader_def map_of_cdn_headers canonical_keys)
next
  case False
  let ?r = "\<lparr>wr = emptyWriter, req = rq, store = s, status = 0, currentUser = None\<rparr>"
  have route: "cdn_route D ?r = cdn_range f (Header_Get (Header rq) ''Range'') ?r"
    using assms(1,2) False by (simp add: cdn_route_def RespondTo_GET cdn_GET_def)
  have fault: "respHeader (handler s (cdn_route D) emptyWriter rq) ''Accept-Ranges'' = None"
    if "cdn_route D ?r = (Panics (ErrOther detail), ?r)" for detail
    using that by (simp add: handler_Panics fault_response)
  show ?thesis
  proof (cases "index (Split (Header_Get (Header rq) ''Range'') CHR ''='') 1")
    case None
    then have "cdn_route D ?r = (Panics (ErrOther ''runtime error: index out of range''), ?r)"
      unfolding route by (simp add: cdn_range_def indexOutOfRange_def)
    then show ?thesis by (rule fault)
  next
    case (Some spec)
    show ?thesis
    proof (cases "index (Split spec CHR ''-'') 1")
      case None
      with Some have "cdn_route D ?r =
          (Panics (ErrOther ''runtime error: index out of range''), ?r)"
        unfolding route
        by (simp add: cdn_range_def indexOutOfRange_def Let_def split: option.splits)
      then show ?thesis by (rule fault)
    next
      case token1: (Some token1)
      obtain u others where 1: "Split (Header_Get (Header rq) ''Range'') CHR ''='' = u # spec # others"
        using Some by (rule index_1_Some)
      obtain token0 rest where 2: "Split spec CHR ''-'' = token0 # token1 # rest"
        using token1 by (rule index_1_Some)
      define start where "start = (case ParseInt token0 of Some v \<Rightarrow> v | None \<Rightarrow> 0)"
      define e where "e = (case ParseInt token1 of Some v \<Rightarrow> v | None \<Rightarrow> CDNFile.Size f - 1)"
      show ?thesis
      proof (cases "slice (Contents f) start (e + 1)")
        case None
        then have "cdn_route D ?r =
            (Panics (ErrOther ''runtime error: slice bounds out of range''), ?r)"
          unfolding route cdn_range_eq [OF 1 2] start_def e_def
          by (simp add: sliceBoundsOutOfRange_def)
        then show ?thesis by (rule fault)
      next
        case (Some d)
        show ?thesis
          unfolding cdn_response_sliced [OF assms(1,2) 1 2 start_def e_def Some]
          by (simp add: respHeader_def map_of_cdn_headers canonical_keys)
      qed
    qed
  qed
qed

section \<open>The wrapper\<close>

text \<open>
  C1 (as amended). When the handler of a request panics with a value that is not a
  structured APIError, and nothing was sent before, the wrapper answers with status 500 and
  a JSON error body whose one message is "internal error: " followed by the detail of the
  fault: the text of the error, or "panic: " and the text of a value that is not an error.
\<close>

theorem unstructured_fault_response:
  assumes "ch \<lparr>wr = emptyWriter, req = rq, store = s, status = 0, currentUser = None\<rparr> =
             (Panics p, r)"
    and "sent (wr r) = None"
    and "\<forall>st messages. p \<noteq> ErrAPI st messages"
  shows "respStatus (handler s ch emptyWriter rq) = Some 500
    \<and> respBody (handler s ch emptyWriter rq) =
        body (wr r) @
        [JSON (VMap [(''errors'', VSlice (Some [VStr (''internal error: '' @
           (case p of ErrOther text \<Rightarrow> text
            | NotError text trace \<Rightarrow> ''panic: '' @ text @ trace
            | ErrAPI st messages \<Rightarrow> []))]))])]"
proof (cases p)
  case (ErrAPI st messages)
  with assms(3) show ?thesis by simp
next
  case (ErrOther detail)
  with assms(1,2) show ?thesis
    by (simp add: handler_Panics respStatus_WriteError respBody_WriteError variadic_def)
next
  case (NotError detail trace)
  with assms(1,2) show ?thesis
    by (simp add: handler_Panics respStatus_WriteError respBody_WriteError variadic_def)
qed

theorem unstructured_fault_response_witness:
  "respStatus (handler exampleStore (cdn_route exampleDeps) emptyWriter (cdnRequest ''bytes''))
     = Some 500
   \<and> respBody (handler exampleStore (cdn_route exampleDeps) emptyWriter (cdnRequest ''bytes'')) =
       [JSON (VMap [(''errors'',
          VSlice (Some [VStr ''internal error: runtime error: index out of range'']))])]"
  using unstructured_fault_response [where ch = "cdn_route exampleDeps" and p = "ErrOther ''runtime error: index out of range''", OF cdn_route_no_spec]
  by (simp add: emptyWriter_def)

theorem fault_detail_in_body:
  "respBody (handler exampleStore
       (failingHandler ''open /srv/keys/master.pem: permission denied'')
       emptyWriter (apiRequest ''/profile'' [])) =
     [JSON (VMap [(''errors'',
        VSlice (Some [VStr ''internal error: open /srv/keys/master.pem: permission denied'']))])]
   \<and> respBody (handler exampleStore (panickingHandler ''db password is hunter2'')
       emptyWriter (apiRequest ''/profile'' [])) =
     [JSON (VMap [(''errors'',
        VSlice (Some [VStr ''internal error: panic: db password is hunter2'']))])]"
  by (simp add: handler_def failingHandler_def panickingHandler_def respBody_WriteError
      emptyWriter_def variadic_def)

section \<open>The API routes\<close>

text \<open>
  C2. On \<^verbatim>\<open>/games/{id}/uploads\<close> the game is looked up in the store directly, so an id that
  matches no Game gives the predicate a nil Game: the status is 500 when the predicate
  dereferences it, 403 or 200 when it answers without, and in no case 404. (The route
  \<^verbatim>\<open>/games/{id}\<close> looks the game up with \<^verbatim>\<open>r.FindGame\<close> and answers 404.)
\<close>

theorem games_uploads_absent_game:
  assumes "Method rq = ''GET''"
    and "apiKeyUser D rq = Some user"
    and "ParseInt (routeVar rq ''id'') = Some gameID"
    and "Games s gameID = None"
  shows "respStatus (handler s (games_uploads_route D) emptyWriter rq) =
           Some (case CanBeViewedBy D None (Some user) of
                   None \<Rightarrow> 500 | Some False \<Rightarrow> 403 | Some True \<Rightarrow> 200)
    \<and> respStatus (handler s (games_uploads_route D) emptyWriter rq) \<noteq> Some 404"
proof -
  let ?r = "\<lparr>wr = emptyWriter, req = rq, store = s, status = 0, currentUser = None\<rparr>"
  let ?r' = "\<lparr>wr = emptyWriter, req = rq, store = s, status = 0, currentUser = Some user\<rparr>"
  have run: "games_uploads_route D ?r =
      (case CanBeViewedBy D None (Some user) of
         None \<Rightarrow> (Panics nilDereference, ?r')
       | Some False \<Rightarrow> (Panics (ErrAPI 403 [''unauthorized'']), ?r')
       | Some True \<Rightarrow>
           (Returns (), WriteJSON [(''uploads'',
              anySlice (FormatUploads (ListUploadsByGame D s gameID)))] ?r'))"
    using assms
    by (simp add: games_uploads_route_def RespondTo_GET games_uploads_GET_def context_defs
        split: option.splits bool.splits)
  show ?thesis
  proof (cases "CanBeViewedBy D None (Some user)")
    case None
    with run show ?thesis
      by (simp add: handler_Panics nilDereference_def respStatus_WriteError emptyWriter_def)
  next
    case (Some b)
    with run show ?thesis
      by (cases b)
         (simp_all add: handler_Panics handler_Returns respStatus_WriteError
            respStatus_WriteJSON emptyWriter_def)
  qed
qed

theorem games_uploads_absent_game_witness:
  "respStatus (handler exampleStore (games_uploads_route exampleDeps) emptyWriter
      (apiRequest ''/games/7/uploads'' [(''id'', ''7'')])) = Some 500
   \<and> respStatus (handler exampleStore (games_uploads_route exampleDeps) emptyWriter
      (apiRequest ''/games/7/uploads'' [(''id'', ''7'')])) \<noteq> Some 404"
proof -
  have 1: "ParseInt (routeVar (apiRequest ''/games/7/uploads'' [(''id'', ''7'')]) ''id'') = Some 7"
    by (simp add: apiRequest_simps ParseInt_eval)
  have 2: "Games exampleStore 7 = None"
    by (simp add: exampleStore_def)
  show ?thesis
    using games_uploads_absent_game [OF apiRequest_simps(1,2) 1 2]
    by (simp add: exampleDeps_def)
qed

text \<open>
  C8. An authenticated, authorized download request that reaches a Build without the
  requested file is answered 404: on \<^verbatim>\<open>/builds/{id}/download/{type}/{subtype}\<close> when the
  Build has no file for the pair of the route, and on \<^verbatim>\<open>/uploads/{id}/download\<close> when the
  Upload is stored as a build and the Build it points to has no file
  ("archive", "default").
\<close>

theorem missing_build_file_not_found:
  assumes "Method rq = ''GET''"
    and "apiKeyUser D rq = Some user"
    and "ParseInt (routeVar rq ''id'') = Some n"
  shows "(Builds s n = Some build \<and> Uploads s (UploadID build) = Some upload
          \<and> CanBeDownloadedBy D upload (Some user) = Some True
          \<and> GetFile build (routeVar rq ''type'') (routeVar rq ''subtype'') = None
          \<longrightarrow> respStatus (handler s (builds_download_route D) emptyWriter rq) = Some 404)
    \<and> (Uploads s n = Some upload \<and> CanBeDownloadedBy D upload (Some user) = Some True
          \<and> Storage upload = ''build'' \<and> Builds s (Head upload) = Some build
          \<and> GetFile build ''archive'' ''default'' = None
          \<longrightarrow> respStatus (handler s (uploads_download_route D) emptyWriter rq) = Some 404)"
proof (intro conjI impI)
  let ?r = "\<lparr>wr = emptyWriter, req = rq, store = s, status = 0, currentUser = None\<rparr>"
  let ?r' = "\<lparr>wr = emptyWriter, req = rq, store = s, status = 0, currentUser = Some user\<rparr>"
  assume a: "Builds s n = Some build \<and> Uploads s (UploadID build) = Some upload
          \<and> CanBeDownloadedBy D upload (Some user) = Some True
          \<and> GetFile build (routeVar rq ''type'') (routeVar rq ''subtype'') = None"
  have "builds_download_route D ?r =
      (Panics (ErrAPI 404 [''no '' @ routeVar rq ''type'' @ ''/'' @ routeVar rq ''subtype'' @
                            '' build file'']), ?r')"
    using assms a
    by (simp add: builds_download_route_def RespondTo_GET builds_download_GET_def context_defs)
  then show "respStatus (handler s (builds_download_route D) emptyWriter rq) = Some 404"
    by (simp add: handler_Panics respStatus_WriteError emptyWriter_def)
next
  let ?r = "\<lparr>wr = emptyWriter, req = rq, store = s, status = 0, currentUser = None\<rparr>"
  let ?r' = "\<lparr>wr = emptyWriter, req = rq, store = s, status = 0, currentUser = Some user\<rparr>"
  assume a: "Uploads s n = Some upload \<and> CanBeDownloadedBy D upload (Some user) = Some True
          \<and> Storage upload = ''build'' \<and> Builds s (Head upload) = Some build
          \<and> GetFile build ''archive'' ''default'' = None"
  have "uploads_download_route D ?r = (Panics (ErrAPI 404 [''no archive for build'']), ?r')"
    using assms a
    by (simp add: uploads_download_route_def RespondTo_GET uploads_download_GET_def context_defs)
  then show "respStatus (handler s (uploads_download_route D) emptyWriter rq) = Some 404"
    by (simp add: handler_Panics respStatus_WriteError emptyWriter_def)
qed

theorem missing_build_file_not_found_witness:
  "respStatus (handler exampleStore (builds_download_route exampleDeps) emptyWriter
      (apiRequest ''/builds/5/download/archive/nonexistent-subtype''
         [(''id'', ''5''), (''type'', ''archive''), (''subtype'', ''nonexistent-subtype'')]))
     = Some 404
   \<and> respStatus (handler exampleStore (uploads_download_route exampleDeps) emptyWriter
      (apiRequest ''/uploads/3/download'' [(''id'', ''3'')])) = Some 404"
proof -
  have 1: "ParseInt (routeVar (apiRequest ''/builds/5/download/archive/nonexistent-subtype''
         [(''id'', ''5''), (''type'', ''archive''), (''subtype'', ''nonexistent-subtype'')]) ''id'')
         = Some 5"
    by (simp add: apiRequest_simps ParseInt_eval)
  have 2: "ParseInt (routeVar (apiRequest ''/uploads/3/download'' [(''id'', ''3'')]) ''id'') = Some 3"
    by (simp add: apiRequest_simps ParseInt_eval)
  show ?thesis
    using missing_build_file_not_found [OF apiRequest_simps(1,2) 1, of exampleStore exampleBuild
        exampleUpload]
      missing_build_file_not_found [OF apiRequest_simps(1,2) 2, of exampleStore exampleBuild
        exampleUpload]
    by (simp add: example_lookups)
qed

text \<open>
  C10. On \<^verbatim>\<open>/uploads/{id}/download\<close>, for an authenticated and authorized request: an Upload
  with storage "build" is served from the file ("archive", "default") of the Build that
  its \<open>Head\<close> names, whatever the request says (the handler does to the response exactly
  what \<^verbatim>\<open>ServeCDNAsset\<close> does with that file); an Upload whose storage is neither "hosted" nor
  "build" is answered 500.
\<close>

theorem upload_download_by_storage:
  assumes "Method rq = ''GET''"
    and "apiKeyUser D rq = Some user"
    and "ParseInt (routeVar rq ''id'') = Some uploadID"
    and "Uploads s uploadID = Some upload"
    and "CanBeDownloadedBy D upload (Some user) = Some True"
  shows "(Storage upload = ''build'' \<and> Builds s (Head upload) = Some build
          \<and> GetFile build ''archive'' ''default'' = Some archive
          \<longrightarrow> handler s (uploads_download_route D) emptyWriter rq =
              handler s (\<lambda>r. ServeCDNAsset D (BuildFileAsset archive)
                               (r\<lparr>currentUser := Some user\<rparr>)) emptyWriter rq)
    \<and> (Storage upload \<noteq> ''hosted'' \<and> Storage upload \<noteq> ''build''
          \<longrightarrow> respStatus (handler s (uploads_download_route D) emptyWriter rq) = Some 500
            \<and> respBody (handler s (uploads_download_route D) emptyWriter rq) =
                [JSON (VMap [(''errors'', VSlice (Some [VStr ''unsupported storage'']))])])"
proof -
  let ?r = "\<lparr>wr = emptyWriter, req = rq, store = s, status = 0, currentUser = None\<rparr>"
  let ?r' = "\<lparr>wr = emptyWriter, req = rq, store = s, status = 0, currentUser = Some user\<rparr>"
  have unsupported: "uploads_download_route D ?r =
      (Panics (ErrAPI 500 [''unsupported storage'']), ?r')"
    if "Storage upload \<noteq> ''hosted'' \<and> Storage upload \<noteq> ''build''"
    using assms that
    by (simp add: uploads_download_route_def RespondTo_GET uploads_download_GET_def context_defs)
  show ?thesis
  proof (intro conjI impI)
  let ?r = "\<lparr>wr = emptyWriter, req = rq, store = s, status = 0, currentUser = None\<rparr>"
  assume a: "Storage upload = ''build'' \<and> Builds s (Head upload) = Some build
          \<and> GetFile build ''archive'' ''default'' = Some archive"
  have "uploads_download_route D ?r =
          ServeCDNAsset D (BuildFileAsset archive) (?r\<lparr>currentUser := Some user\<rparr>)"
    using assms a
    by (simp add: uploads_download_route_def RespondTo_GET uploads_download_GET_def context_defs)
  then show "handler s (uploads_download_route D) emptyWriter rq =
              handler s (\<lambda>r. ServeCDNAsset D (BuildFileAsset archive)
                               (r\<lparr>currentUser := Some user\<rparr>)) emptyWriter rq"
    by (simp add: handler_def)
next
  assume a: "Storage upload \<noteq> ''hosted'' \<and> Storage upload \<noteq> ''build''"
  show "respStatus (handler s (uploads_download_route D) emptyWriter rq) = Some 500"
    using unsupported [OF a]
    by (simp add: handler_Panics respStatus_WriteError emptyWriter_def)
next
  assume a: "Storage upload \<noteq> ''hosted'' \<and> Storage upload \<noteq> ''build''"
  show "respBody (handler s (uploads_download_route D) emptyWriter rq) =
                [JSON (VMap [(''errors'', VSlice (Some [VStr ''unsupported storage'']))])]"
    using unsupported [OF a]
    by (simp add: handler_Panics respBody_WriteError emptyWriter_def variadic_def)
  qed
qed

theorem upload_download_by_storage_witness:
  "respBody (handler exampleStore (uploads_download_route exampleDeps) emptyWriter
      (apiRequest ''/uploads/4/download'' [(''id'', ''4'')])) =
     [JSON (VMap [(''asset'', VStr ''archive/default'')])]
   \<and> respStatus (handler exampleStore (uploads_download_route exampleDeps) emptyWriter
      (apiRequest ''/uploads/8/download'' [(''id'', ''8'')])) = Some 500
   \<and> respBody (handler exampleStore (uploads_download_route exampleDeps) emptyWriter
      (apiRequest ''/uploads/8/download'' [(''id'', ''8'')])) =
     [JSON (VMap [(''errors'', VSlice (Some [VStr ''unsupported storage'']))])]"
proof -
  have 1: "ParseInt (routeVar (apiRequest ''/uploads/4/download'' [(''id'', ''4'')]) ''id'') = Some 4"
    by (simp add: apiRequest_simps ParseInt_eval)
  have 2: "ParseInt (routeVar (apiRequest ''/uploads/8/download'' [(''id'', ''8'')]) ''id'') = Some 8"
    by (simp add: apiRequest_simps ParseInt_eval)
  have 3: "Uploads exampleStore 4 = Some archivedUpload" "Uploads exampleStore 8 = Some tapeUpload"
    by (simp_all add: exampleStore_def)
  have 4: "Storage archivedUpload = ''build'' \<and> Builds exampleStore (Head archivedUpload) =
      Some archivedBuild \<and> GetFile archivedBuild ''archive'' ''default'' = Some exampleArchive"
    by (simp add: exampleStore_def archivedUpload_def exampleUpload_def archivedBuild_def
        GetFile_def)
  have 5: "Storage tapeUpload \<noteq> ''hosted'' \<and> Storage tapeUpload \<noteq> ''build''"
    by (simp add: tapeUpload_def)
  have 6: "respBody (handler exampleStore
       (\<lambda>r. ServeCDNAsset exampleDeps (BuildFileAsset exampleArchive)
              (r\<lparr>currentUser := Some exampleUser\<rparr>)) emptyWriter
       (apiRequest ''/uploads/4/download'' [(''id'', ''4'')])) =
     [JSON (VMap [(''asset'', VStr ''archive/default'')])]"
    by (simp add: handler_def exampleDeps_def exampleArchive_def respBody_def WriteJSON_def
        WriteHeader_def Write_def emptyWriter_def)
  show ?thesis
    using upload_download_by_storage [where build = archivedBuild and archive = exampleArchive,
        OF apiRequest_simps(1,2) 1 3(1) example_lookups(7)]
      upload_download_by_storage [OF apiRequest_simps(1,2) 2 3(2) example_lookups(7)]
    by (simp add: 4 5 6)
qed

end
